theory Spec2Isabelle
  imports Main
begin

section \<open>Data model\<close>

text \<open>
  The types \<open>Movie\<close>, \<open>Genre\<close>, \<open>Tag\<close>, \<open>Mood\<close> and \<open>UserProfile\<close> are imported by the
  sources from a declaration module that is not part of the files at hand. The fields
  below are the ones the code reads (\<open>movie.id\<close>, \<open>movie.genre_ids\<close>, \<open>movie.genres\<close>,
  \<open>genre.id\<close>, \<open>genre.name\<close>, \<open>tag.id\<close>, \<open>tag.type\<close>, \<open>prev.likedMovies\<close>, ...).
  Identifiers are JavaScript numbers that hold integers; they are modelled as \<open>int\<close>.
  An optional field is an \<open>option\<close>: \<open>None\<close> is \<open>undefined\<close> (or \<open>null\<close> for the poster path).
\<close>

text \<open>Modelled from the spec: the \<open>Genre\<close> type declaration (identifier, name).\<close>

record Genre =
  Genre_id :: int
  Genre_name :: string

text \<open>
  Modelled from the spec: the \<open>Movie\<close> type declaration (identifier, title, nullable
  poster path, genre identifiers or embedded genre records).
\<close>

record Movie =
  Movie_id :: int
  title :: string
  poster_path :: "string option"
  genre_ids :: "int list option"
  genres :: "Genre list option"

text \<open>
  Modelled from the spec: the \<open>Tag\<close> type declaration (identifier, display name, origin,
  kind). Origin and kind are string literals at run time.
\<close>

record Tag =
  Tag_id :: string
  Tag_name :: string
  Tag_source :: string
  Tag_type :: string

text \<open>
  Modelled from the spec: the \<open>Mood\<close> type is a union of string literals; at run time a
  mood is a string, which is what the \<open>switch\<close> in \<open>getMoodBasedRecommendations\<close> compares.
\<close>

type_synonym Mood = string

text \<open>Modelled from the spec: the \<open>UserProfile\<close> type declaration.\<close>

record UserProfile =
  likedMovies :: "Movie list"
  dislikedMovies :: "Movie list"
  avoidedMovies :: "Movie list"
  tags :: "Tag list"
  currentMood :: "Mood option"

section \<open>The profile store\<close>

text \<open>
  Every operation of the provider hands an updater \<open>prev => next\<close> to \<open>setProfile\<close>; the
  model is that updater, a function from the previous profile to the next one.
\<close>

definition initialProfile :: UserProfile where
  "initialProfile =
     \<lparr>likedMovies = [], dislikedMovies = [], avoidedMovies = [], tags = [],
      currentMood = None\<rparr>"

definition addLikedMovie :: "Movie \<Rightarrow> UserProfile \<Rightarrow> UserProfile" where
  "addLikedMovie movie prev =
     (let filteredDisliked = filter (\<lambda>m. Movie_id m \<noteq> Movie_id movie) (dislikedMovies prev);
          filteredAvoided = filter (\<lambda>m. Movie_id m \<noteq> Movie_id movie) (avoidedMovies prev);
          isAlreadyLiked = list_ex (\<lambda>m. Movie_id m = Movie_id movie) (likedMovies prev)
      in if isAlreadyLiked then prev
         else prev\<lparr>likedMovies := likedMovies prev @ [movie],
                   dislikedMovies := filteredDisliked,
                   avoidedMovies := filteredAvoided\<rparr>)"

definition removeLikedMovie :: "int \<Rightarrow> UserProfile \<Rightarrow> UserProfile" where
  "removeLikedMovie movieId prev =
     prev\<lparr>likedMovies := filter (\<lambda>m. Movie_id m \<noteq> movieId) (likedMovies prev)\<rparr>"

definition addDislikedMovie :: "Movie \<Rightarrow> UserProfile \<Rightarrow> UserProfile" where
  "addDislikedMovie movie prev =
     (let filteredLiked = filter (\<lambda>m. Movie_id m \<noteq> Movie_id movie) (likedMovies prev);
          filteredAvoided = filter (\<lambda>m. Movie_id m \<noteq> Movie_id movie) (avoidedMovies prev);
          isAlreadyDisliked = list_ex (\<lambda>m. Movie_id m = Movie_id movie) (dislikedMovies prev)
      in if isAlreadyDisliked then prev
         else prev\<lparr>dislikedMovies := dislikedMovies prev @ [movie],
                   likedMovies := filteredLiked,
                   avoidedMovies := filteredAvoided\<rparr>)"

definition removeDislikedMovie :: "int \<Rightarrow> UserProfile \<Rightarrow> UserProfile" where
  "removeDislikedMovie movieId prev =
     prev\<lparr>dislikedMovies := filter (\<lambda>m. Movie_id m \<noteq> movieId) (dislikedMovies prev)\<rparr>"

definition addAvoidedMovie :: "Movie \<Rightarrow> UserProfile \<Rightarrow> UserProfile" where
  "addAvoidedMovie movie prev =
     (let filteredLiked = filter (\<lambda>m. Movie_id m \<noteq> Movie_id movie) (likedMovies prev);
          filteredDisliked = filter (\<lambda>m. Movie_id m \<noteq> Movie_id movie) (dislikedMovies prev);
          isAlreadyAvoided = list_ex (\<lambda>m. Movie_id m = Movie_id movie) (avoidedMovies prev)
      in if isAlreadyAvoided then prev
         else prev\<lparr>avoidedMovies := avoidedMovies prev @ [movie],
                   likedMovies := filteredLiked,
                   dislikedMovies := filteredDisliked\<rparr>)"

definition removeAvoidedMovie :: "int \<Rightarrow> UserProfile \<Rightarrow> UserProfile" where
  "removeAvoidedMovie movieId prev =
     prev\<lparr>avoidedMovies := filter (\<lambda>m. Movie_id m \<noteq> movieId) (avoidedMovies prev)\<rparr>"

text \<open>
  A call of one of the six movie operations, and the profile after a sequence of calls:
  \<open>setProfile\<close> applies the queued updaters one after the other, each to the result of
  the one before.
\<close>

datatype MovieCall =
    AddLiked Movie
  | RemoveLiked int
  | AddDisliked Movie
  | RemoveDisliked int
  | AddAvoided Movie
  | RemoveAvoided int

fun applyCall :: "MovieCall \<Rightarrow> UserProfile \<Rightarrow> UserProfile" where
  "applyCall (AddLiked m) prev = addLikedMovie m prev"
| "applyCall (RemoveLiked i) prev = removeLikedMovie i prev"
| "applyCall (AddDisliked m) prev = addDislikedMovie m prev"
| "applyCall (RemoveDisliked i) prev = removeDislikedMovie i prev"
| "applyCall (AddAvoided m) prev = addAvoidedMovie m prev"
| "applyCall (RemoveAvoided i) prev = removeAvoidedMovie i prev"

fun applyCalls :: "MovieCall list \<Rightarrow> UserProfile \<Rightarrow> UserProfile" where
  "applyCalls [] prev = prev"
| "applyCalls (c # cs) prev = applyCalls cs (applyCall c prev)"

text \<open>The identifiers held by one of the three movie lists.\<close>

definition idsOf :: "Movie list \<Rightarrow> int set" where
  "idsOf ms = Movie_id ` set ms"

text \<open>The exclusivity invariant: no identifier is in two of the three lists.\<close>

definition exclusive :: "UserProfile \<Rightarrow> bool" where
  "exclusive p \<longleftrightarrow>
     idsOf (likedMovies p) \<inter> idsOf (dislikedMovies p) = {} \<and>
     idsOf (likedMovies p) \<inter> idsOf (avoidedMovies p) = {} \<and>
     idsOf (dislikedMovies p) \<inter> idsOf (avoidedMovies p) = {}"

section \<open>Numbers and strings of the run time\<close>

text \<open>
  A JavaScript number that is either an integer or \<open>NaN\<close>: the result type of
  \<open>parseInt\<close>. The integer is the mathematical value of the digits; the rounding of
  values beyond \<open>2^53\<close> to a double is not modelled, it does not change whether the result
  is \<open>NaN\<close>.
\<close>

datatype JSNumber = Num int | NaN

fun isNaN :: "JSNumber \<Rightarrow> bool" where
  "isNaN NaN = True"
| "isNaN (Num n) = False"

definition digitChar :: "nat \<Rightarrow> char" where
  "digitChar d = char_of (48 + d)"

function showNat :: "nat \<Rightarrow> string" where
  "showNat n = (if n < 10 then [digitChar n] else showNat (n div 10) @ [digitChar (n mod 10)])"
  by pat_completeness auto
termination
  by (relation "measure id") auto

declare showNat.simps [simp del]

text \<open>
  The decimal rendering of an integer, as template literals, \<open>join\<close> and
  \<open>JSON.stringify\<close> produce it for magnitudes below \<open>10^21\<close>; the exponent form of
  larger numbers is not modelled.
\<close>

definition showInt :: "int \<Rightarrow> string" where
  "showInt i = (if i < 0 then CHR ''-'' # showNat (nat (- i)) else showNat (nat i))"

fun showNumber :: "JSNumber \<Rightarrow> string" where
  "showNumber (Num i) = showInt i"
| "showNumber NaN = ''NaN''"

text \<open>\<open>Array.prototype.join\<close> on strings.\<close>

fun join :: "string \<Rightarrow> string list \<Rightarrow> string" where
  "join sep [] = []"
| "join sep [x] = x"
| "join sep (x # y # ys) = x @ sep @ join sep (y # ys)"

text \<open>
  \<open>String.prototype.replace\<close> with a string pattern: the first occurrence of the pattern,
  wherever it is, is replaced.
\<close>

fun replaceFirst :: "string \<Rightarrow> string \<Rightarrow> string \<Rightarrow> string" where
  "replaceFirst pat rep [] = (if pat = [] then rep else [])"
| "replaceFirst pat rep (c # cs) =
     (if take (length pat) (c # cs) = pat then rep @ drop (length pat) (c # cs)
      else c # replaceFirst pat rep cs)"

text \<open>
  \<open>parseInt\<close> with no radix argument: leading white space is skipped, a sign is read, a
  prefix \<open>0x\<close> or \<open>0X\<close> selects radix 16, then the longest run of digits of the radix is
  read; what follows the digits is ignored, and no digit at all gives \<open>NaN\<close>. Characters
  are code units below 256.
\<close>

definition isWhiteSpace :: "char \<Rightarrow> bool" where
  "isWhiteSpace c \<longleftrightarrow> (of_char c :: nat) \<in> {9, 10, 11, 12, 13, 32, 160}"

definition digitValue :: "char \<Rightarrow> nat option" where
  "digitValue c =
     (let n = (of_char c :: nat)
      in if 48 \<le> n \<and> n \<le> 57 then Some (n - 48)
         else if 97 \<le> n \<and> n \<le> 122 then Some (n - 87)
         else if 65 \<le> n \<and> n \<le> 90 then Some (n - 55)
         else None)"

definition isRadixDigit :: "nat \<Rightarrow> char \<Rightarrow> bool" where
  "isRadixDigit R c = (case digitValue c of None \<Rightarrow> False | Some d \<Rightarrow> d < R)"

definition digitsValue :: "nat \<Rightarrow> string \<Rightarrow> nat" where
  "digitsValue R Z = foldl (\<lambda>a c. R * a + (case digitValue c of None \<Rightarrow> 0 | Some d \<Rightarrow> d)) 0 Z"

definition parseInt :: "string \<Rightarrow> JSNumber" where
  "parseInt inputString =
     (let S = dropWhile isWhiteSpace inputString;
          sign = (if S \<noteq> [] \<and> hd S = CHR ''-'' then - 1 else 1 :: int);
          S1 = (if S \<noteq> [] \<and> (hd S = CHR ''+'' \<or> hd S = CHR ''-'') then tl S else S);
          hex = (2 \<le> length S1 \<and> (take 2 S1 = ''0x'' \<or> take 2 S1 = ''0X''));
          R = (if hex then 16 else 10 :: nat);
          S2 = (if hex then drop 2 S1 else S1);
          Z = takeWhile (isRadixDigit R) S2
      in if Z = [] then NaN else Num (sign * int (digitsValue R Z)))"


section \<open>The catalog client\<close>

text \<open>
  The remote catalog is a parameter: for each request the code issues it either answers
  with the payload (\<open>Some\<close>) or the request throws (\<open>None\<close>). The parameters \<open>api_key\<close> and
  \<open>language\<close> are the same on every request and are left out.
\<close>

record DiscoverParams =
  with_genres :: "string option"
  sort_by :: string
  page :: int

record Catalog =
  popular :: "int \<Rightarrow> Movie list option"
  discover :: "DiscoverParams \<Rightarrow> Movie list option"
  genreList :: "Genre list option"

definition getPopularMovies :: "Catalog \<Rightarrow> int \<Rightarrow> Movie list" where
  "getPopularMovies api pg = (case popular api pg of Some results \<Rightarrow> results | None \<Rightarrow> [])"

definition getGenres :: "Catalog \<Rightarrow> Genre list" where
  "getGenres api = (case genreList api of Some gs \<Rightarrow> gs | None \<Rightarrow> [])"

text \<open>
  The poster URL. The second argument is the optional \<open>size\<close>; \<open>None\<close> is an omitted
  argument, which takes the default \<open>w500\<close>. \<open>!posterPath\<close> holds for \<open>null\<close> and for the
  empty string.
\<close>

definition getMoviePosterUrl :: "string option \<Rightarrow> string option \<Rightarrow> string" where
  "getMoviePosterUrl posterPath sz =
     (let size' = (case sz of None \<Rightarrow> ''w500'' | Some s \<Rightarrow> s)
      in case posterPath of
           None \<Rightarrow> ''/placeholder.svg''
         | Some p \<Rightarrow> if p = [] then ''/placeholder.svg''
                     else ''https://image.tmdb.org/t/p/'' @ size' @ p)"

section \<open>Mood-based recommendations\<close>

text \<open>The \<open>switch\<close> over the mood; it has no default branch, so \<open>genreIds\<close> stays empty.\<close>

definition moodGenreIds :: "Mood \<Rightarrow> int list" where
  "moodGenreIds mood =
     (if mood = ''happy'' then [35, 10751]
      else if mood = ''sad'' then [18, 10749]
      else if mood = ''excited'' then [28, 12, 878]
      else if mood = ''relaxed'' then [16, 35, 10751]
      else if mood = ''thoughtful'' then [99, 36, 18]
      else if mood = ''tense'' then [27, 53, 9648]
      else [])"

definition getMoodBasedRecommendations :: "Catalog \<Rightarrow> Mood \<Rightarrow> int \<Rightarrow> Movie list" where
  "getMoodBasedRecommendations api mood pg =
     (let genreIds = moodGenreIds mood;
          genreParam = join '','' (map showInt genreIds)
      in case discover api \<lparr>with_genres = Some genreParam, sort_by = ''popularity.desc'',
                            page = pg\<rparr> of
           Some results \<Rightarrow> results
         | None \<Rightarrow> [])"

section \<open>Tag extraction\<close>

text \<open>
  \<open>genreMap\<close> is a \<open>Map\<close> from genre id to count. A \<open>Map\<close> keeps its entries in the
  order in which the keys were first set, and \<open>set\<close> on a key that is present replaces the
  value in place; the model is the list of entries in that order.
\<close>

type_synonym GenreMap = "(int \<times> int) list"

fun mapGet :: "GenreMap \<Rightarrow> int \<Rightarrow> int option" where
  "mapGet [] k = None"
| "mapGet ((k', v) # es) k = (if k' = k then Some v else mapGet es k)"

fun mapSet :: "int \<Rightarrow> int \<Rightarrow> GenreMap \<Rightarrow> GenreMap" where
  "mapSet k v [] = [(k, v)]"
| "mapSet k v ((k', v') # es) = (if k' = k then (k, v) # es else (k', v') # mapSet k v es)"

text \<open>
  The body of the inner \<open>forEach\<close>: \<open>genreMap.get(genreId) || 0\<close> is \<open>0\<close> for a missing
  key and for a count of \<open>0\<close>.
\<close>

definition countGenre :: "GenreMap \<Rightarrow> int \<Rightarrow> GenreMap" where
  "countGenre genreMap genreId =
     (let current = (case mapGet genreMap genreId of
                       None \<Rightarrow> 0
                     | Some c \<Rightarrow> if c = 0 then 0 else c)
      in mapSet genreId (current + 1) genreMap)"

text \<open>
  The body of the outer \<open>forEach\<close>: \<open>genre_ids\<close> is used when it is present (an empty array
  is present), else the embedded \<open>genres\<close> when they are present.
\<close>

definition countMovie :: "GenreMap \<Rightarrow> Movie \<Rightarrow> GenreMap" where
  "countMovie genreMap movie =
     (case genre_ids movie of
        Some ids \<Rightarrow> foldl countGenre genreMap ids
      | None \<Rightarrow>
          (case genres movie of
             Some gs \<Rightarrow> foldl (\<lambda>m genre. countGenre m (Genre_id genre)) genreMap gs
           | None \<Rightarrow> genreMap))"

definition collectGenres :: "Movie list \<Rightarrow> GenreMap" where
  "collectGenres movies = foldl countMovie [] movies"

text \<open>
  \<open>Array.prototype.sort\<close> with a comparator is a stable sort: \<open>a\<close> stays before \<open>b\<close>
  unless the comparator is positive on \<open>(a, b)\<close>. The model is insertion from the right.
\<close>

fun insertBy :: "('a \<Rightarrow> 'a \<Rightarrow> int) \<Rightarrow> 'a \<Rightarrow> 'a list \<Rightarrow> 'a list" where
  "insertBy cmp x [] = [x]"
| "insertBy cmp x (y # ys) = (if cmp x y \<le> 0 then x # y # ys else y # insertBy cmp x ys)"

definition sortBy :: "('a \<Rightarrow> 'a \<Rightarrow> int) \<Rightarrow> 'a list \<Rightarrow> 'a list" where
  "sortBy cmp xs = foldr (insertBy cmp) xs []"

text \<open>
  The tag of one entry. \<open>genre?.name || 'Unknown Genre'\<close> is the fallback for a genre that
  is not in the reference list and for one whose name is the empty string.
\<close>

definition genreTag :: "Genre list \<Rightarrow> int \<times> int \<Rightarrow> Tag" where
  "genreTag gs e =
     (case e of (genreId, count) \<Rightarrow>
        let genre = find (\<lambda>g. Genre_id g = genreId) gs
        in \<lparr>Tag_id = ''genre-'' @ showInt genreId,
            Tag_name = (case genre of
                          None \<Rightarrow> ''Unknown Genre''
                        | Some g \<Rightarrow> if Genre_name g = [] then ''Unknown Genre''
                                    else Genre_name g),
            Tag_source = ''auto'',
            Tag_type = ''genre''\<rparr>)"

definition sortedEntries :: "Movie list \<Rightarrow> (int \<times> int) list" where
  "sortedEntries movies = sortBy (\<lambda>a b. snd b - snd a) (collectGenres movies)"

definition extractTagsFromMovies :: "Catalog \<Rightarrow> Movie list \<Rightarrow> Tag list" where
  "extractTagsFromMovies api movies =
     (let gs = getGenres api
      in map (genreTag gs) (sortedEntries movies))"

text \<open>
  What the properties of the extraction are stated in: the genre ids a movie presents to
  the count (in the order of its own data), the sequence of all of them over a movie
  list, the count the map holds for a genre, and the position at which a genre id is
  first met.
\<close>

definition movieGenreIds :: "Movie \<Rightarrow> int list" where
  "movieGenreIds movie =
     (case genre_ids movie of
        Some ids \<Rightarrow> ids
      | None \<Rightarrow> (case genres movie of Some gs \<Rightarrow> map Genre_id gs | None \<Rightarrow> []))"

definition allGenreIds :: "Movie list \<Rightarrow> int list" where
  "allGenreIds movies = concat (map movieGenreIds movies)"

definition genreCount :: "Movie list \<Rightarrow> int \<Rightarrow> int" where
  "genreCount movies g = (case mapGet (collectGenres movies) g of None \<Rightarrow> 0 | Some c \<Rightarrow> c)"



text \<open>
  The genre ids of a sequence in the order in which they are first met, each once: the
  order of the keys of \<open>genreMap\<close>.
\<close>

definition firstSeen :: "int list \<Rightarrow> int list" where
  "firstSeen ids = rev (remdups (rev ids))"


section \<open>Tag-based recommendations\<close>

text \<open>The genre ids read back from the tags: the first statement of the function.\<close>

definition tagGenreIds :: "Tag list \<Rightarrow> JSNumber list" where
  "tagGenreIds ts =
     filter (\<lambda>n. \<not> isNaN n)
       (map (\<lambda>tag. parseInt (replaceFirst ''genre-'' [] (Tag_id tag)))
          (filter (\<lambda>tag. Tag_type tag = ''genre'') ts))"

text \<open>
  The whole function. The page is passed by the caller (the default is \<open>1\<close>); a request
  that throws is caught and gives the empty list.
\<close>

definition getTagBasedRecommendations ::
    "Catalog \<Rightarrow> Tag list \<Rightarrow> int list \<Rightarrow> int list \<Rightarrow> int list \<Rightarrow> int \<Rightarrow> Movie list" where
  "getTagBasedRecommendations api ts likedMovieIds dislikedMovieIds avoidedMovieIds pg =
     (let genreIds = tagGenreIds ts
      in if length genreIds = 0 \<and> length likedMovieIds = 0 then getPopularMovies api pg
         else
           let params = \<lparr>with_genres = (if 0 < length genreIds
                                         then Some (join '','' (map showNumber genreIds))
                                         else None),
                         sort_by = ''popularity.desc'',
                         page = pg\<rparr>
           in case discover api params of
                None \<Rightarrow> []
              | Some results \<Rightarrow>
                  if 0 < length dislikedMovieIds \<or> 0 < length avoidedMovieIds
                  then filter (\<lambda>movie. Movie_id movie \<notin> set dislikedMovieIds \<and>
                                       Movie_id movie \<notin> set avoidedMovieIds) results
                  else results)"

section \<open>Persistence\<close>

text \<open>
  The provider stores \<open>JSON.stringify(profile)\<close> under one key and starts from
  \<open>JSON.parse\<close> of the stored text. Both are functions of the run time; they are
  modelled on JSON values with integer numbers and strings of code units below 256.
\<close>

datatype JSON =
    JNull
  | JBool bool
  | JNum int
  | JStr string
  | JArr "JSON list"
  | JObj "(string \<times> JSON) list"

text \<open>The double quote and the backslash.\<close>

definition dquote :: char where "dquote = CHR 0x22"
definition backslash :: char where "backslash = CHR 0x5C"

text \<open>
  \<open>JSON.stringify\<close> without indentation. A string is quoted; the double quote, the
  backslash and the code units below \<open>0x20\<close> are escaped: backspace, tab, line feed,
  form feed and carriage return by their letter, the others by \<open>u\<close> and four
  hexadecimal digits in lower case.
\<close>

definition hexChar :: "nat \<Rightarrow> char" where
  "hexChar d = (if d < 10 then char_of (48 + d) else char_of (87 + d))"

definition escapeChar :: "char \<Rightarrow> string" where
  "escapeChar c =
     (let n = (of_char c :: nat)
      in if n = 8 then [backslash, CHR ''b'']
         else if n = 9 then [backslash, CHR ''t'']
         else if n = 10 then [backslash, CHR ''n'']
         else if n = 12 then [backslash, CHR ''f'']
         else if n = 13 then [backslash, CHR ''r'']
         else if c = dquote then [backslash, dquote]
         else if c = backslash then [backslash, backslash]
         else if n < 32 then [backslash, CHR ''u'', CHR ''0'', CHR ''0'', hexChar (n div 16), hexChar (n mod 16)]
         else [c])"

definition quoteJSONString :: "string \<Rightarrow> string" where
  "quoteJSONString s = dquote # concat (map escapeChar s) @ [dquote]"

fun serialize :: "JSON \<Rightarrow> string"
  and serializeElements :: "JSON list \<Rightarrow> string"
  and serializeMembers :: "(string \<times> JSON) list \<Rightarrow> string" where
  "serialize JNull = ''null''"
| "serialize (JBool b) = (if b then ''true'' else ''false'')"
| "serialize (JNum i) = showInt i"
| "serialize (JStr s) = quoteJSONString s"
| "serialize (JArr xs) = ''['' @ serializeElements xs @ '']''"
| "serialize (JObj ms) = ''{'' @ serializeMembers ms @ ''}''"
| "serializeElements [] = []"
| "serializeElements [x] = serialize x"
| "serializeElements (x # y # ys) = serialize x @ '','' @ serializeElements (y # ys)"
| "serializeMembers [] = []"
| "serializeMembers [(k, v)] = quoteJSONString k @ '':'' @ serialize v"
| "serializeMembers ((k, v) # m # ms) =
     quoteJSONString k @ '':'' @ serialize v @ '','' @ serializeMembers (m # ms)"

text \<open>
  \<open>JSON.parse\<close>: white space between tokens is skipped; a string ends at the first
  unescaped double quote and must not hold a raw code unit below \<open>0x20\<close>; a number has
  no leading zero; a text with a fraction or an exponent, or with an escape above
  code unit 255, is outside the model and is rejected like a syntax error. The recursion
  over arrays and objects is bounded by fuel; \<open>JSON_parse\<close> supplies more fuel than the
  text has characters.
\<close>

definition isJsonWhiteSpace :: "char \<Rightarrow> bool" where
  "isJsonWhiteSpace c \<longleftrightarrow> (of_char c :: nat) \<in> {9, 10, 13, 32}"

definition skipWs :: "string \<Rightarrow> string" where
  "skipWs s = dropWhile isJsonWhiteSpace s"

definition hex4 :: "string \<Rightarrow> nat option" where
  "hex4 hs = (if length hs = 4 \<and> list_all (isRadixDigit 16) hs then Some (digitsValue 16 hs) else None)"

fun parseChars :: "string \<Rightarrow> (string \<times> string) option" where
  "parseChars [] = None"
| "parseChars (c # cs) =
     (if c = dquote then Some ([], cs)
      else if c = backslash then
        (case cs of
           [] \<Rightarrow> None
         | e # r \<Rightarrow>
             if e = CHR ''u'' then
               (case hex4 (take 4 r) of
                  None \<Rightarrow> None
                | Some n \<Rightarrow>
                    if n < 256 then
                      (case parseChars (drop 4 r) of
                         None \<Rightarrow> None
                       | Some (str, rest) \<Rightarrow> Some (char_of n # str, rest))
                    else None)
             else
               (case (if e = dquote then Some dquote
                      else if e = backslash then Some backslash
                      else if e = CHR ''/'' then Some (CHR ''/'')
                      else if e = CHR ''b'' then Some (CHR 0x08)
                      else if e = CHR ''f'' then Some (CHR 0x0C)
                      else if e = CHR ''n'' then Some (CHR 0x0A)
                      else if e = CHR ''r'' then Some (CHR 0x0D)
                      else if e = CHR ''t'' then Some (CHR 0x09)
                      else None) of
                  None \<Rightarrow> None
                | Some d \<Rightarrow>
                    (case parseChars r of
                       None \<Rightarrow> None
                     | Some (str, rest) \<Rightarrow> Some (d # str, rest))))
      else if (of_char c :: nat) < 32 then None
      else (case parseChars cs of
              None \<Rightarrow> None
            | Some (str, rest) \<Rightarrow> Some (c # str, rest)))"

definition isDecimalDigit :: "char \<Rightarrow> bool" where
  "isDecimalDigit c \<longleftrightarrow> isRadixDigit 10 c"

definition parseNumber :: "string \<Rightarrow> (int \<times> string) option" where
  "parseNumber s =
     (let negative = (s \<noteq> [] \<and> hd s = CHR ''-'');
          s1 = (if negative then tl s else s);
          ds = takeWhile isDecimalDigit s1;
          rest = dropWhile isDecimalDigit s1
      in if ds = [] then None
         else if 1 < length ds \<and> hd ds = CHR ''0'' then None
         else if rest \<noteq> [] \<and> (hd rest = CHR ''.'' \<or> hd rest = CHR ''e'' \<or> hd rest = CHR ''E'')
           then None
         else Some ((if negative then - 1 else 1) * int (digitsValue 10 ds), rest))"

fun parseValue :: "nat \<Rightarrow> string \<Rightarrow> (JSON \<times> string) option"
  and parseElements :: "nat \<Rightarrow> string \<Rightarrow> (JSON list \<times> string) option"
  and parseMembers :: "nat \<Rightarrow> string \<Rightarrow> ((string \<times> JSON) list \<times> string) option" where
  "parseValue 0 s = None"
| "parseValue (Suc n) s =
     (case skipWs s of
        [] \<Rightarrow> None
      | c # r \<Rightarrow>
          if c = CHR ''n'' then (if take 3 r = ''ull'' then Some (JNull, drop 3 r) else None)
          else if c = CHR ''t'' then (if take 3 r = ''rue'' then Some (JBool True, drop 3 r) else None)
          else if c = CHR ''f'' then (if take 4 r = ''alse'' then Some (JBool False, drop 4 r) else None)
          else if c = dquote then
            (case parseChars r of None \<Rightarrow> None | Some (str, r1) \<Rightarrow> Some (JStr str, r1))
          else if c = CHR ''['' then
            (case skipWs r of
               [] \<Rightarrow> None
             | c1 # r1 \<Rightarrow>
                 if c1 = CHR '']'' then Some (JArr [], r1)
                 else (case parseElements n (c1 # r1) of
                         None \<Rightarrow> None
                       | Some (vs, r2) \<Rightarrow> Some (JArr vs, r2)))
          else if c = CHR ''{'' then
            (case skipWs r of
               [] \<Rightarrow> None
             | c1 # r1 \<Rightarrow>
                 if c1 = CHR ''}'' then Some (JObj [], r1)
                 else (case parseMembers n (c1 # r1) of
                         None \<Rightarrow> None
                       | Some (ms, r2) \<Rightarrow> Some (JObj ms, r2)))
          else (case parseNumber (c # r) of
                  None \<Rightarrow> None
                | Some (i, r1) \<Rightarrow> Some (JNum i, r1)))"
| "parseElements 0 s = None"
| "parseElements (Suc n) s =
     (case parseValue n s of
        None \<Rightarrow> None
      | Some (v, r) \<Rightarrow>
          (case skipWs r of
             [] \<Rightarrow> None
           | c # r1 \<Rightarrow>
               if c = CHR '','' then
                 (case parseElements n r1 of
                    None \<Rightarrow> None
                  | Some (vs, r2) \<Rightarrow> Some (v # vs, r2))
               else if c = CHR '']'' then Some ([v], r1)
               else None))"
| "parseMembers 0 s = None"
| "parseMembers (Suc n) s =
     (case skipWs s of
        [] \<Rightarrow> None
      | q # r \<Rightarrow>
          if q = dquote then
            (case parseChars r of
               None \<Rightarrow> None
             | Some (k, r1) \<Rightarrow>
                 (case skipWs r1 of
                    [] \<Rightarrow> None
                  | c # r2 \<Rightarrow>
                      if c = CHR '':'' then
                        (case parseValue n r2 of
                           None \<Rightarrow> None
                         | Some (v, r3) \<Rightarrow>
                             (case skipWs r3 of
                                [] \<Rightarrow> None
                              | d # r4 \<Rightarrow>
                                  if d = CHR '','' then
                                    (case parseMembers n r4 of
                                       None \<Rightarrow> None
                                     | Some (ms, r5) \<Rightarrow> Some ((k, v) # ms, r5))
                                  else if d = CHR ''}'' then Some ([(k, v)], r4)
                                  else None))
                      else None))
          else None)"

definition JSON_parse :: "string \<Rightarrow> JSON option" where
  "JSON_parse text =
     (case parseValue (Suc (length text)) text of
        None \<Rightarrow> None
      | Some (v, rest) \<Rightarrow> if skipWs rest = [] then Some v else None)"

definition JSON_stringify :: "JSON \<Rightarrow> string" where
  "JSON_stringify v = serialize v"

text \<open>The end of the text or a character that ends a value inside an array or object.\<close>

definition delimited :: "string \<Rightarrow> bool" where
  "delimited rest \<longleftrightarrow> rest = [] \<or> hd rest = CHR '','' \<or> hd rest = CHR '']'' \<or> hd rest = CHR ''}''"

text \<open>Fuel that is enough to parse the text of a value.\<close>

fun fuelFor :: "JSON \<Rightarrow> nat"
  and fuelForElements :: "JSON list \<Rightarrow> nat"
  and fuelForMembers :: "(string \<times> JSON) list \<Rightarrow> nat" where
  "fuelFor (JArr xs) = Suc (fuelForElements xs)"
| "fuelFor (JObj ms) = Suc (fuelForMembers ms)"
| "fuelFor v = 1"
| "fuelForElements [] = 0"
| "fuelForElements (x # xs) = Suc (fuelFor x + fuelForElements xs)"
| "fuelForMembers [] = 0"
| "fuelForMembers ((k, v) # ms) = Suc (fuelFor v + fuelForMembers ms)"

text \<open>
  The JSON value that \<open>JSON.stringify\<close> serializes for an object of each type: a
  property whose value is \<open>undefined\<close> is left out, \<open>null\<close> is written.
\<close>

definition genreJSON :: "Genre \<Rightarrow> JSON" where
  "genreJSON g = JObj [(''id'', JNum (Genre_id g)), (''name'', JStr (Genre_name g))]"

definition movieJSON :: "Movie \<Rightarrow> JSON" where
  "movieJSON m =
     JObj ([(''id'', JNum (Movie_id m)),
            (''title'', JStr (title m)),
            (''poster_path'', (case poster_path m of None \<Rightarrow> JNull | Some p \<Rightarrow> JStr p))]
           @ (case genre_ids m of None \<Rightarrow> [] | Some ids \<Rightarrow> [(''genre_ids'', JArr (map JNum ids))])
           @ (case genres m of None \<Rightarrow> [] | Some gs \<Rightarrow> [(''genres'', JArr (map genreJSON gs))]))"

definition tagJSON :: "Tag \<Rightarrow> JSON" where
  "tagJSON t =
     JObj [(''id'', JStr (Tag_id t)), (''name'', JStr (Tag_name t)),
           (''source'', JStr (Tag_source t)), (''type'', JStr (Tag_type t))]"

definition profileJSON :: "UserProfile \<Rightarrow> JSON" where
  "profileJSON p =
     JObj ([(''likedMovies'', JArr (map movieJSON (likedMovies p))),
            (''dislikedMovies'', JArr (map movieJSON (dislikedMovies p))),
            (''avoidedMovies'', JArr (map movieJSON (avoidedMovies p))),
            (''tags'', JArr (map tagJSON (tags p)))]
           @ (case currentMood p of None \<Rightarrow> [] | Some mood \<Rightarrow> [(''currentMood'', JStr mood)]))"

text \<open>
  Reading a parsed value at the types the code gives it. A property that occurs twice
  in the text has its last value; a missing property reads as \<open>undefined\<close>. \<open>None\<close> is a
  value that does not have the shape of the type.
\<close>

definition getProperty :: "(string \<times> JSON) list \<Rightarrow> string \<Rightarrow> JSON option" where
  "getProperty ms k = map_of (rev ms) k"

fun asInt :: "JSON \<Rightarrow> int option" where
  "asInt (JNum i) = Some i"
| "asInt v = None"

fun asString :: "JSON \<Rightarrow> string option" where
  "asString (JStr s) = Some s"
| "asString v = None"

fun asList :: "(JSON \<Rightarrow> 'a option) \<Rightarrow> JSON \<Rightarrow> 'a list option" where
  "asList f (JArr xs) = those (map f xs)"
| "asList f v = None"

fun asOptional :: "(JSON \<Rightarrow> 'a option) \<Rightarrow> JSON option \<Rightarrow> 'a option option" where
  "asOptional f None = Some None"
| "asOptional f (Some JNull) = Some None"
| "asOptional f (Some v) = map_option Some (f v)"

fun asRequired :: "(JSON \<Rightarrow> 'a option) \<Rightarrow> JSON option \<Rightarrow> 'a option" where
  "asRequired f None = None"
| "asRequired f (Some v) = f v"

fun asGenre :: "JSON \<Rightarrow> Genre option" where
  "asGenre (JObj ms) =
     (case (asRequired asInt (getProperty ms ''id''),
            asRequired asString (getProperty ms ''name'')) of
        (Some i, Some n) \<Rightarrow> Some \<lparr>Genre_id = i, Genre_name = n\<rparr>
      | _ \<Rightarrow> None)"
| "asGenre v = None"

fun asMovie :: "JSON \<Rightarrow> Movie option" where
  "asMovie (JObj ms) =
     (case (asRequired asInt (getProperty ms ''id''),
            asRequired asString (getProperty ms ''title''),
            asOptional asString (getProperty ms ''poster_path''),
            asOptional (asList asInt) (getProperty ms ''genre_ids''),
            asOptional (asList asGenre) (getProperty ms ''genres'')) of
        (Some i, Some t, Some pp, Some gi, Some gs) \<Rightarrow>
          Some \<lparr>Movie_id = i, title = t, poster_path = pp, genre_ids = gi, genres = gs\<rparr>
      | _ \<Rightarrow> None)"
| "asMovie v = None"

fun asTag :: "JSON \<Rightarrow> Tag option" where
  "asTag (JObj ms) =
     (case (asRequired asString (getProperty ms ''id''),
            asRequired asString (getProperty ms ''name''),
            asRequired asString (getProperty ms ''source''),
            asRequired asString (getProperty ms ''type'')) of
        (Some i, Some n, Some s, Some t) \<Rightarrow>
          Some \<lparr>Tag_id = i, Tag_name = n, Tag_source = s, Tag_type = t\<rparr>
      | _ \<Rightarrow> None)"
| "asTag v = None"

fun asUserProfile :: "JSON \<Rightarrow> UserProfile option" where
  "asUserProfile (JObj ms) =
     (case (asRequired (asList asMovie) (getProperty ms ''likedMovies''),
            asRequired (asList asMovie) (getProperty ms ''dislikedMovies''),
            asRequired (asList asMovie) (getProperty ms ''avoidedMovies''),
            asRequired (asList asTag) (getProperty ms ''tags''),
            asOptional asString (getProperty ms ''currentMood'')) of
        (Some l, Some d, Some a, Some t, Some m) \<Rightarrow>
          Some \<lparr>likedMovies = l, dislikedMovies = d, avoidedMovies = a, tags = t,
                currentMood = m\<rparr>
      | _ \<Rightarrow> None)"
| "asUserProfile v = None"

text \<open>
  The effect: the text written to the store. The state initialiser: what the stored
  item gives, where \<open>None\<close> as argument is a missing item, and the empty text is falsy.
\<close>

definition saveProfile :: "UserProfile \<Rightarrow> string" where
  "saveProfile profile = JSON_stringify (profileJSON profile)"

definition loadProfile :: "string option \<Rightarrow> UserProfile option" where
  "loadProfile savedProfile =
     (case savedProfile of
        None \<Rightarrow> Some initialProfile
      | Some text \<Rightarrow>
          if text = [] then Some initialProfile
          else (case JSON_parse text of None \<Rightarrow> None | Some v \<Rightarrow> asUserProfile v))"

section \<open>Example data\<close>

definition movie42 :: Movie where
  "movie42 = \<lparr>Movie_id = 42, title = ''Example'', poster_path = None,
               genre_ids = Some [18], genres = None\<rparr>"

definition emptyFilterCatalog :: Catalog where
  "emptyFilterCatalog =
     \<lparr>popular = (\<lambda>pg. None),
      discover = (\<lambda>ps. if with_genres ps = Some [] then Some [movie42] else None),
      genreList = None\<rparr>"

definition movie5 :: Movie where
  "movie5 = \<lparr>Movie_id = 5, title = ''Disliked'', poster_path = Some ''/five.jpg'',
              genre_ids = Some [35], genres = None\<rparr>"

definition popularCatalog :: Catalog where
  "popularCatalog =
     \<lparr>popular = (\<lambda>pg. Some [movie5, movie42]),
      discover = (\<lambda>ps. Some [movie5, movie42]),
      genreList = Some [\<lparr>Genre_id = 18, Genre_name = ''Drama''\<rparr>]\<rparr>"

definition twiceDrama :: Movie where
  "twiceDrama = \<lparr>Movie_id = 7, title = ''Twice'', poster_path = None,
                  genre_ids = Some [18, 18], genres = None\<rparr>"

definition fourMovies :: "Movie list" where
  "fourMovies =
     [\<lparr>Movie_id = 1, title = ''A'', poster_path = None, genre_ids = Some [35, 18], genres = None\<rparr>,
      \<lparr>Movie_id = 2, title = ''B'', poster_path = None, genre_ids = Some [18], genres = None\<rparr>,
      \<lparr>Movie_id = 3, title = ''C'', poster_path = None, genre_ids = None,
        genres = Some [\<lparr>Genre_id = 18, Genre_name = ''Drama''\<rparr>]\<rparr>,
      \<lparr>Movie_id = 4, title = ''D'', poster_path = None, genre_ids = Some [], genres = None\<rparr>]"

definition exampleTags :: "Tag list" where
  "exampleTags =
     [\<lparr>Tag_id = ''genre-28'', Tag_name = ''Action'', Tag_source = ''auto'', Tag_type = ''genre''\<rparr>,
      \<lparr>Tag_id = ''genre-abc'', Tag_name = ''Broken'', Tag_source = ''manual'', Tag_type = ''genre''\<rparr>,
      \<lparr>Tag_id = ''genre-12'', Tag_name = ''Other'', Tag_source = ''manual'', Tag_type = ''keyword''\<rparr>]"

definition exampleProfile :: UserProfile where
  "exampleProfile =
     \<lparr>likedMovies = [movie42], dislikedMovies = [movie5], avoidedMovies = [twiceDrama],
      tags = exampleTags, currentMood = Some ''happy''\<rparr>"

definition likedAndDisliked :: UserProfile where
  "likedAndDisliked =
     \<lparr>likedMovies = [movie42], dislikedMovies = [movie42], avoidedMovies = [], tags = [],
      currentMood = None\<rparr>"



section \<open>Properties of the profile store\<close>

lemma idsOf_filter: "idsOf (filter (\<lambda>m. Movie_id m \<noteq> i) ms) = idsOf ms - {i}"
  by (auto simp: idsOf_def)

lemma idsOf_snoc: "idsOf (ms @ [m]) = insert (Movie_id m) (idsOf ms)"
  by (auto simp: idsOf_def)

lemma list_ex_idsOf: "list_ex (\<lambda>m. Movie_id m = i) ms \<longleftrightarrow> i \<in> idsOf ms"
  by (auto simp: idsOf_def list_ex_iff)

lemma exclusive_addLikedMovie: "exclusive p \<Longrightarrow> exclusive (addLikedMovie m p)"
  unfolding exclusive_def addLikedMovie_def Let_def
  by (auto simp: idsOf_filter idsOf_snoc)

lemma exclusive_addDislikedMovie: "exclusive p \<Longrightarrow> exclusive (addDislikedMovie m p)"
  unfolding exclusive_def addDislikedMovie_def Let_def
  by (auto simp: idsOf_filter idsOf_snoc)

lemma exclusive_addAvoidedMovie: "exclusive p \<Longrightarrow> exclusive (addAvoidedMovie m p)"
  unfolding exclusive_def addAvoidedMovie_def Let_def
  by (auto simp: idsOf_filter idsOf_snoc)

lemma exclusive_removeLikedMovie: "exclusive p \<Longrightarrow> exclusive (removeLikedMovie i p)"
  unfolding exclusive_def removeLikedMovie_def
  by (auto simp: idsOf_filter)

lemma exclusive_removeDislikedMovie: "exclusive p \<Longrightarrow> exclusive (removeDislikedMovie i p)"
  unfolding exclusive_def removeDislikedMovie_def
  by (auto simp: idsOf_filter)

lemma exclusive_removeAvoidedMovie: "exclusive p \<Longrightarrow> exclusive (removeAvoidedMovie i p)"
  unfolding exclusive_def removeAvoidedMovie_def
  by (auto simp: idsOf_filter)

lemma exclusive_applyCall: "exclusive p \<Longrightarrow> exclusive (applyCall c p)"
  by (cases c)
    (simp_all add: exclusive_addLikedMovie exclusive_addDislikedMovie
      exclusive_addAvoidedMovie exclusive_removeLikedMovie exclusive_removeDislikedMovie
      exclusive_removeAvoidedMovie)

lemma exclusive_applyCalls: "exclusive p \<Longrightarrow> exclusive (applyCalls cs p)"
  by (induction cs arbitrary: p) (simp_all add: exclusive_applyCall)

lemma exclusive_initialProfile: "exclusive initialProfile"
  by (simp add: exclusive_def initialProfile_def idsOf_def)

text \<open>
  Claim C3. Starting from the empty profile, after any finite sequence of calls of
  \<open>addLikedMovie\<close>, \<open>removeLikedMovie\<close>, \<open>addDislikedMovie\<close>, \<open>removeDislikedMovie\<close>,
  \<open>addAvoidedMovie\<close> and \<open>removeAvoidedMovie\<close>, no movie identifier is in more than one of
  the liked, disliked and avoided lists.
\<close>

theorem C3_exclusive_after_calls: "exclusive (applyCalls cs initialProfile)"
  by (rule exclusive_applyCalls [OF exclusive_initialProfile])

text \<open>
  The scenario of a fresh profile in which movie 42 is disliked and then liked: the
  invariant holds and 42 is in the liked list only.
\<close>

theorem C3_exclusive_after_calls_witness:
  "exclusive (applyCalls [AddDisliked movie42, AddLiked movie42] initialProfile) \<and>
   idsOf (likedMovies (applyCalls [AddDisliked movie42, AddLiked movie42] initialProfile)) = {42}"
  using C3_exclusive_after_calls [of "[AddDisliked movie42, AddLiked movie42]"]
  by (simp add: addDislikedMovie_def addLikedMovie_def initialProfile_def idsOf_def movie42_def)

text \<open>
  On a profile that satisfies the exclusivity invariant, \<open>addLikedMovie m\<close> leaves the
  identifier of \<open>m\<close> in the liked list only.
\<close>

lemma addLikedMovie_post_exclusive:
  assumes "exclusive p"
  shows "Movie_id m \<in> idsOf (likedMovies (addLikedMovie m p)) \<and>
         Movie_id m \<notin> idsOf (dislikedMovies (addLikedMovie m p)) \<union>
                        idsOf (avoidedMovies (addLikedMovie m p))"
  using assms unfolding exclusive_def addLikedMovie_def Let_def
  by (auto simp: idsOf_filter idsOf_snoc list_ex_idsOf)

text \<open>
  Claim C4, as the code has it. For every movie \<open>m\<close> and every profile that satisfies
  the exclusivity invariant, after \<open>addLikedMovie m\<close> the identifier of \<open>m\<close> is in the liked
  list and in neither the disliked nor the avoided list, whether or not it was in the
  disliked or the avoided list before. For an arbitrary profile this holds exactly when
  \<open>m\<close> was not already in the liked list and also in the disliked or the avoided list.
\<close>

theorem C4_addLikedMovie_post:
  "(exclusive p \<longrightarrow>
      Movie_id m \<in> idsOf (likedMovies (addLikedMovie m p)) \<and>
      Movie_id m \<notin> idsOf (dislikedMovies (addLikedMovie m p)) \<union>
                     idsOf (avoidedMovies (addLikedMovie m p))) \<and>
   ((Movie_id m \<in> idsOf (likedMovies (addLikedMovie m p)) \<and>
     Movie_id m \<notin> idsOf (dislikedMovies (addLikedMovie m p)) \<union>
                    idsOf (avoidedMovies (addLikedMovie m p))) \<longleftrightarrow>
    \<not> (Movie_id m \<in> idsOf (likedMovies p) \<and>
       Movie_id m \<in> idsOf (dislikedMovies p) \<union> idsOf (avoidedMovies p)))"
proof -
  have "(Movie_id m \<in> idsOf (likedMovies (addLikedMovie m p)) \<and>
     Movie_id m \<notin> idsOf (dislikedMovies (addLikedMovie m p)) \<union>
                    idsOf (avoidedMovies (addLikedMovie m p))) \<longleftrightarrow>
    \<not> (Movie_id m \<in> idsOf (likedMovies p) \<and>
       Movie_id m \<in> idsOf (dislikedMovies p) \<union> idsOf (avoidedMovies p))"
    unfolding addLikedMovie_def Let_def
    by (auto simp: idsOf_filter idsOf_snoc list_ex_idsOf)
  with addLikedMovie_post_exclusive [of p m] show ?thesis by blast
qed

theorem C4_addLikedMovie_post_witness:
  "exclusive (addDislikedMovie movie42 initialProfile) \<and>
   42 \<in> idsOf (dislikedMovies (addDislikedMovie movie42 initialProfile)) \<and>
   idsOf (likedMovies (addLikedMovie movie42 (addDislikedMovie movie42 initialProfile))) = {42} \<and>
   dislikedMovies (addLikedMovie movie42 (addDislikedMovie movie42 initialProfile)) = []"
proof -
  have h: "exclusive (addDislikedMovie movie42 initialProfile)"
    by (simp add: exclusive_def addDislikedMovie_def initialProfile_def idsOf_def)
  show ?thesis
    using h C4_addLikedMovie_post [of "addDislikedMovie movie42 initialProfile" movie42]
    by (simp add: addDislikedMovie_def addLikedMovie_def initialProfile_def idsOf_def movie42_def)
qed

text \<open>
  Claim C4, as stated for every profile, fails: on a profile that holds movie 42 in the
  liked and in the disliked list, \<open>addLikedMovie\<close> returns the profile unchanged and 42
  stays in the disliked list.
\<close>

theorem C4_counterexample:
  "addLikedMovie movie42 likedAndDisliked = likedAndDisliked \<and>
   Movie_id movie42 \<in> idsOf (likedMovies likedAndDisliked) \<and>
   Movie_id movie42 \<in> idsOf (dislikedMovies (addLikedMovie movie42 likedAndDisliked))"
  by (simp add: addLikedMovie_def likedAndDisliked_def idsOf_def)

text \<open>
  Claim C5. Applying \<open>addLikedMovie m\<close> twice gives the same profile as applying it once,
  and \<open>addLikedMovie\<close> on a movie whose identifier is already in the liked list returns
  the profile unchanged.
\<close>

theorem C5_addLikedMovie_idempotent:
  "addLikedMovie m (addLikedMovie m p) = addLikedMovie m p \<and>
   (Movie_id m \<in> idsOf (likedMovies p) \<longrightarrow> addLikedMovie m p = p)"
proof -
  have unchanged: "addLikedMovie m q = q" if "Movie_id m \<in> idsOf (likedMovies q)" for q
    using that by (simp add: addLikedMovie_def list_ex_idsOf)
  have "Movie_id m \<in> idsOf (likedMovies (addLikedMovie m p))"
    by (simp add: addLikedMovie_def Let_def list_ex_idsOf idsOf_snoc)
  then show ?thesis using unchanged by blast
qed

theorem C5_addLikedMovie_idempotent_witness:
  "Movie_id movie42 \<in> idsOf (likedMovies (addLikedMovie movie42 initialProfile)) \<and>
   addLikedMovie movie42 (addLikedMovie movie42 initialProfile) =
     addLikedMovie movie42 initialProfile"
  using C5_addLikedMovie_idempotent [of movie42 "addLikedMovie movie42 initialProfile"]
  by (simp add: addLikedMovie_def initialProfile_def idsOf_def)

section \<open>Properties of the catalog client\<close>

text \<open>
  Claim C10. \<open>getMoviePosterUrl\<close> returns the placeholder \<open>/placeholder.svg\<close> for a
  \<open>null\<close> path and for the empty path; for every non-empty path it returns the image base
  URL followed by the size token (\<open>w500\<close> when the size is omitted) and the path.
\<close>

theorem C10_getMoviePosterUrl:
  "getMoviePosterUrl None sz = ''/placeholder.svg'' \<and>
   getMoviePosterUrl (Some []) sz = ''/placeholder.svg'' \<and>
   (p \<noteq> [] \<longrightarrow>
      getMoviePosterUrl (Some p) None = ''https://image.tmdb.org/t/p/'' @ ''w500'' @ p \<and>
      getMoviePosterUrl (Some p) (Some s) = ''https://image.tmdb.org/t/p/'' @ s @ p)"
  by (simp add: getMoviePosterUrl_def)

theorem C10_getMoviePosterUrl_witness:
  "''/poster.jpg'' \<noteq> [] \<and>
   getMoviePosterUrl (Some ''/poster.jpg'') None =
     ''https://image.tmdb.org/t/p/w500/poster.jpg'' \<and>
   getMoviePosterUrl (Some ''/poster.jpg'') (Some ''w185'') =
     ''https://image.tmdb.org/t/p/w185/poster.jpg'' \<and>
   getMoviePosterUrl (Some []) None = ''/placeholder.svg''"
  using C10_getMoviePosterUrl [of None "''/poster.jpg''" "''w185''"]
  by simp

text \<open>
  Claim C8. For every mood outside \<open>happy\<close>, \<open>sad\<close>, \<open>excited\<close>, \<open>relaxed\<close>, \<open>thoughtful\<close>,
  \<open>tense\<close> and every page, \<open>getMoodBasedRecommendations\<close> does not fail: no genre id is
  selected, and the result is the catalog's answer to the discover query whose genre
  filter is the empty string, or the empty list when that query throws.
\<close>

theorem C8_unknown_mood:
  assumes "mood \<notin> {''happy'', ''sad'', ''excited'', ''relaxed'', ''thoughtful'', ''tense''}"
  shows "moodGenreIds mood = [] \<and>
         getMoodBasedRecommendations api mood pg =
           (case discover api \<lparr>with_genres = Some [], sort_by = ''popularity.desc'',
                                 page = pg\<rparr> of
              Some results \<Rightarrow> results
            | None \<Rightarrow> [])"
  using assms by (simp add: getMoodBasedRecommendations_def moodGenreIds_def)

theorem C8_unknown_mood_witness:
  "''sleepy'' \<notin> {''happy'', ''sad'', ''excited'', ''relaxed'', ''thoughtful'', ''tense''} \<and>
   getMoodBasedRecommendations emptyFilterCatalog ''sleepy'' 1 = [movie42]"
proof -
  have h: "''sleepy'' \<notin> {''happy'', ''sad'', ''excited'', ''relaxed'', ''thoughtful'', ''tense''}"
    by simp
  show ?thesis
    using h C8_unknown_mood [OF h, of emptyFilterCatalog 1]
    by (simp add: emptyFilterCatalog_def)
qed

section \<open>Properties of the tag extraction\<close>

subsection \<open>The count map in closed form\<close>

lemma mapGet_tabulate:
  "mapGet (map (\<lambda>g. (g, f g)) ks) k = (if k \<in> set ks then Some (f k) else None)"
  by (induction ks) auto

lemma mapSet_tabulate_new:
  "k \<notin> set ks \<Longrightarrow> mapSet k v (map (\<lambda>g. (g, f g)) ks) = map (\<lambda>g. (g, f g)) ks @ [(k, v)]"
  by (induction ks) auto

lemma mapSet_tabulate_old:
  "distinct ks \<Longrightarrow> k \<in> set ks \<Longrightarrow>
   mapSet k v (map (\<lambda>g. (g, f g)) ks) = map (\<lambda>g. (g, (f(k := v)) g)) ks"
  by (induction ks) auto

lemma countGenre_tabulate_new:
  assumes "x \<notin> set ks"
  shows "countGenre (map (\<lambda>g. (g, f g)) ks) x = map (\<lambda>g. (g, f g)) ks @ [(x, 1)]"
  using assms by (simp add: countGenre_def mapGet_tabulate mapSet_tabulate_new)

lemma countGenre_tabulate_old:
  assumes "distinct ks" "x \<in> set ks"
  shows "countGenre (map (\<lambda>g. (g, f g)) ks) x = map (\<lambda>g. (g, (f(x := f x + 1)) g)) ks"
  using assms by (simp add: countGenre_def mapGet_tabulate mapSet_tabulate_old)

lemma firstSeen_snoc:
  "firstSeen (ids @ [x]) = (if x \<in> set ids then firstSeen ids else firstSeen ids @ [x])"
  by (simp add: firstSeen_def)

lemma set_firstSeen: "set (firstSeen ids) = set ids"
  by (simp add: firstSeen_def)

lemma distinct_firstSeen: "distinct (firstSeen ids)"
  by (simp add: firstSeen_def)

lemma foldl_countGenre:
  "foldl countGenre [] ids = map (\<lambda>g. (g, int (count_list ids g))) (firstSeen ids)"
proof (induction ids rule: rev_induct)
  case Nil
  show ?case by (simp add: firstSeen_def)
next
  case (snoc x ids)
  show ?case
  proof (cases "x \<in> set ids")
    case True
    have "foldl countGenre [] (ids @ [x]) =
          countGenre (map (\<lambda>g. (g, int (count_list ids g))) (firstSeen ids)) x"
      by (simp add: snoc.IH)
    also have "\<dots> = map (\<lambda>g. (g, ((\<lambda>g. int (count_list ids g))(x := int (count_list ids x) + 1)) g))
                      (firstSeen ids)"
      using True by (intro countGenre_tabulate_old) (simp_all add: set_firstSeen distinct_firstSeen)
    also have "\<dots> = map (\<lambda>g. (g, int (count_list (ids @ [x]) g))) (firstSeen (ids @ [x]))"
      using True by (simp add: firstSeen_snoc)
    finally show ?thesis .
  next
    case False
    have "foldl countGenre [] (ids @ [x]) =
          countGenre (map (\<lambda>g. (g, int (count_list ids g))) (firstSeen ids)) x"
      by (simp add: snoc.IH)
    also have "\<dots> = map (\<lambda>g. (g, int (count_list ids g))) (firstSeen ids) @ [(x, 1)]"
      using False by (intro countGenre_tabulate_new) (simp add: set_firstSeen)
    also have "\<dots> = map (\<lambda>g. (g, int (count_list (ids @ [x]) g))) (firstSeen (ids @ [x]))"
      using False by (auto simp: firstSeen_snoc set_firstSeen)
    finally show ?thesis .
  qed
qed

lemma countMovie_movieGenreIds:
  "countMovie gm movie = foldl countGenre gm (movieGenreIds movie)"
  by (simp add: countMovie_def movieGenreIds_def foldl_map split: option.splits)

lemma foldl_countMovie:
  "foldl countMovie gm movies = foldl countGenre gm (concat (map movieGenreIds movies))"
  by (induction movies arbitrary: gm) (simp_all add: countMovie_movieGenreIds)

lemma collectGenres_closed:
  "collectGenres movies =
     map (\<lambda>g. (g, int (count_list (allGenreIds movies) g))) (firstSeen (allGenreIds movies))"
  by (simp add: collectGenres_def allGenreIds_def foldl_countMovie foldl_countGenre)

lemma genreCount_count_list:
  "genreCount movies g = int (count_list (allGenreIds movies) g)"
  by (simp add: genreCount_def collectGenres_closed mapGet_tabulate set_firstSeen count_list_0_iff)

lemma count_list_concat:
  "int (count_list (concat xss) g) = (\<Sum>xs\<leftarrow>xss. int (count_list xs g))"
  by (induction xss) simp_all

lemma count_list_distinct:
  "distinct xs \<Longrightarrow> count_list xs g = (if g \<in> set xs then 1 else 0)"
  by (induction xs) auto


text \<open>
  Claim C2, as the code has it. The count that \<open>extractTagsFromMovies\<close> builds for a genre
  id is incremented once for every occurrence of the id in a movie's genre data
  (\<open>genre_ids\<close> when present, else \<open>genres\<close>): it is the sum over the movies of the number
  of occurrences. When no movie lists a genre id more than once, the count is the number
  of movies that list the id.
\<close>

theorem C2_count_per_occurrence:
  "genreCount movies g = (\<Sum>m\<leftarrow>movies. int (count_list (movieGenreIds m) g)) \<and>
   ((\<forall>m \<in> set movies. distinct (movieGenreIds m)) \<longrightarrow>
      genreCount movies g = int (length (filter (\<lambda>m. g \<in> set (movieGenreIds m)) movies)))"
proof -
  have total: "genreCount movies g = (\<Sum>m\<leftarrow>movies. int (count_list (movieGenreIds m) g))"
    by (simp add: genreCount_count_list allGenreIds_def count_list_concat comp_def)
  have "(\<Sum>m\<leftarrow>movies. int (count_list (movieGenreIds m) g)) =
        int (length (filter (\<lambda>m. g \<in> set (movieGenreIds m)) movies))"
    if "\<forall>m \<in> set movies. distinct (movieGenreIds m)"
    using that by (induction movies) (simp_all add: count_list_distinct)
  with total show ?thesis by simp
qed
theorem C2_count_per_occurrence_witness:
  "list_all (\<lambda>m. distinct (movieGenreIds m)) fourMovies \<and> genreCount fourMovies 18 = 3 \<and>
   genreCount fourMovies 35 = 1 \<and> genreCount [twiceDrama] 18 = 2"
proof -
  have a: "list_all (\<lambda>m. distinct (movieGenreIds m)) fourMovies"
    by (simp add: fourMovies_def movieGenreIds_def)
  then have d: "\<forall>m \<in> set fourMovies. distinct (movieGenreIds m)"
    by (simp add: list_all_iff)
  have l: "length (filter (\<lambda>m. 18 \<in> set (movieGenreIds m)) fourMovies) = 3"
    "length (filter (\<lambda>m. 35 \<in> set (movieGenreIds m)) fourMovies) = 1"
    by (simp_all add: fourMovies_def movieGenreIds_def)
  have t: "(\<Sum>m\<leftarrow>[twiceDrama]. int (count_list (movieGenreIds m) 18)) = 2"
    by (simp add: twiceDrama_def movieGenreIds_def)
  show ?thesis
    using a d l t C2_count_per_occurrence [of fourMovies 18]
      C2_count_per_occurrence [of fourMovies 35] C2_count_per_occurrence [of "[twiceDrama]" 18]
    by simp
qed

text \<open>
  Claim C2, as stated, fails: a movie whose \<open>genre_ids\<close> are \<open>[18, 18]\<close> contributes 2 to
  the count of genre 18.
\<close>

theorem C2_counterexample:
  "movieGenreIds twiceDrama = [18, 18] \<and> collectGenres [twiceDrama] = [(18, 2)] \<and>
   genreCount [twiceDrama] 18 = 2"
  by (simp add: movieGenreIds_def twiceDrama_def collectGenres_def countMovie_def
      countGenre_def genreCount_def)

subsection \<open>The order of the tags\<close>



lemma length_insertBy: "length (insertBy cmp x ys) = Suc (length ys)"
  by (induction ys) auto

lemma length_sortBy: "length (sortBy cmp xs) = length xs"
  by (induction xs) (simp_all add: sortBy_def length_insertBy)










subsection \<open>Reading a rendered integer back\<close>

lemma of_char_digitChar: "d < 10 \<Longrightarrow> (of_char (digitChar d) :: nat) = 48 + d"
  by (simp add: digitChar_def)

lemma digitValue_digitChar: "d < 10 \<Longrightarrow> digitValue (digitChar d) = Some d"
  by (simp add: digitValue_def of_char_digitChar)

lemma isRadixDigit_digitChar: "d < 10 \<Longrightarrow> isRadixDigit 10 (digitChar d)"
  by (simp add: isRadixDigit_def digitValue_digitChar)

lemma digitChar_plain:
  assumes "d < 10"
  shows "\<not> isWhiteSpace (digitChar d)" "digitChar d \<noteq> CHR ''-''" "digitChar d \<noteq> CHR ''+''"
    "digitChar d \<noteq> CHR ''x''" "digitChar d \<noteq> CHR ''X''"
proof -
  have v: "(of_char (digitChar d) :: nat) = 48 + d" using assms by (rule of_char_digitChar)
  show "\<not> isWhiteSpace (digitChar d)" using assms by (simp add: isWhiteSpace_def v)
  show "digitChar d \<noteq> CHR ''-''" using v by auto
  show "digitChar d \<noteq> CHR ''+''" using v by auto
  show "digitChar d \<noteq> CHR ''x''" using v assms by auto
  show "digitChar d \<noteq> CHR ''X''" using v assms by auto
qed

lemma showNat_digits: "c \<in> set (showNat n) \<Longrightarrow> \<exists>d<10. c = digitChar d"
proof (induction n rule: showNat.induct)
  case (1 n)
  show ?case
  proof (cases "n < 10")
    case True
    with "1.prems" show ?thesis by (auto simp: showNat.simps [of n])
  next
    case False
    with "1.prems" have "c \<in> set (showNat (n div 10)) \<or> c = digitChar (n mod 10)"
      by (auto simp: showNat.simps [of n])
    then show ?thesis
    proof
      assume "c \<in> set (showNat (n div 10))"
      with False "1.IH" show ?thesis by simp
    next
      assume "c = digitChar (n mod 10)"
      moreover have "n mod 10 < 10" by simp
      ultimately show ?thesis by blast
    qed
  qed
qed

lemma showNat_nonempty: "showNat n \<noteq> []"
  by (subst showNat.simps) simp

lemma digitsValue_snoc:
  "digitsValue R (Z @ [c]) = R * digitsValue R Z + (case digitValue c of None \<Rightarrow> 0 | Some d \<Rightarrow> d)"
  by (simp add: digitsValue_def)

lemma digitsValue_showNat: "digitsValue 10 (showNat n) = n"
proof (induction n rule: showNat.induct)
  case (1 n)
  show ?case
  proof (cases "n < 10")
    case True
    then show ?thesis
      by (simp add: showNat.simps [of n] digitsValue_def digitValue_digitChar)
  next
    case False
    with "1.IH" have "digitsValue 10 (showNat (n div 10)) = n div 10" by simp
    with False show ?thesis
      by (simp add: showNat.simps [of n] digitsValue_snoc digitValue_digitChar)
  qed
qed

lemma takeWhile_showNat: "takeWhile (isRadixDigit 10) (showNat n) = showNat n"
  using showNat_digits isRadixDigit_digitChar by (fastforce simp: takeWhile_eq_all_conv)

lemma showNat_no_x: "CHR ''x'' \<notin> set (showNat n)" "CHR ''X'' \<notin> set (showNat n)"
proof -
  show "CHR ''x'' \<notin> set (showNat n)"
  proof
    assume "CHR ''x'' \<in> set (showNat n)"
    then obtain d where "d < 10" "CHR ''x'' = digitChar d" using showNat_digits by blast
    then show False using digitChar_plain(4) [of d] by simp
  qed
  show "CHR ''X'' \<notin> set (showNat n)"
  proof
    assume "CHR ''X'' \<in> set (showNat n)"
    then obtain d where "d < 10" "CHR ''X'' = digitChar d" using showNat_digits by blast
    then show False using digitChar_plain(5) [of d] by simp
  qed
qed

lemma showNat_no_hex_prefix: "take 2 (showNat n) \<noteq> ''0x''" "take 2 (showNat n) \<noteq> ''0X''"
proof -
  have sub: "set (take 2 (showNat n)) \<subseteq> set (showNat n)" by (rule set_take_subset)
  show "take 2 (showNat n) \<noteq> ''0x''"
  proof
    assume "take 2 (showNat n) = ''0x''"
    then have "CHR ''x'' \<in> set (take 2 (showNat n))" by simp
    with sub showNat_no_x(1) [of n] show False by blast
  qed
  show "take 2 (showNat n) \<noteq> ''0X''"
  proof
    assume "take 2 (showNat n) = ''0X''"
    then have "CHR ''X'' \<in> set (take 2 (showNat n))" by simp
    with sub showNat_no_x(2) [of n] show False by blast
  qed
qed

lemma hd_showNat: "\<exists>d<10. hd (showNat n) = digitChar d"
  using showNat_digits [of "hd (showNat n)" n] showNat_nonempty [of n] by simp

text \<open>\<open>parseInt\<close> once the white space and the sign are gone and the radix is 10.\<close>

lemma parseInt_unfold:
  assumes "dropWhile isWhiteSpace s = S"
    and "(if S \<noteq> [] \<and> (hd S = CHR ''+'' \<or> hd S = CHR ''-'') then tl S else S) = S1"
    and "take 2 S1 \<noteq> ''0x''" "take 2 S1 \<noteq> ''0X''"
    and "takeWhile (isRadixDigit 10) S1 = Z" "Z \<noteq> []"
  shows "parseInt s =
           Num ((if S \<noteq> [] \<and> hd S = CHR ''-'' then - 1 else 1) * int (digitsValue 10 Z))"
  using assms(3,4,6) unfolding parseInt_def assms(1) Let_def assms(2)
  by (simp add: assms(5))

lemma parseInt_showNat: "parseInt (showNat n) = Num (int n)"
proof -
  obtain d where d: "d < 10" "hd (showNat n) = digitChar d" using hd_showNat by blast
  have ne: "showNat n \<noteq> []" by (rule showNat_nonempty)
  then have ws: "dropWhile isWhiteSpace (showNat n) = showNat n"
    using d digitChar_plain(1) by (cases "showNat n") auto
  have sg: "hd (showNat n) \<noteq> CHR ''-''" "hd (showNat n) \<noteq> CHR ''+''"
    using d digitChar_plain(2,3) by simp_all
  have "parseInt (showNat n) =
          Num ((if showNat n \<noteq> [] \<and> hd (showNat n) = CHR ''-'' then - 1 else 1) *
               int (digitsValue 10 (showNat n)))"
    using ws _ showNat_no_hex_prefix takeWhile_showNat ne
    by (rule parseInt_unfold) (simp add: sg)
  then show ?thesis by (simp add: sg digitsValue_showNat)
qed

lemma parseInt_minus_showNat: "parseInt (CHR ''-'' # showNat n) = Num (- int n)"
proof -
  have "\<not> isWhiteSpace CHR ''-''" by (simp add: isWhiteSpace_def)
  then have ws: "dropWhile isWhiteSpace (CHR ''-'' # showNat n) = CHR ''-'' # showNat n"
    by simp
  have "parseInt (CHR ''-'' # showNat n) =
          Num ((if CHR ''-'' # showNat n \<noteq> [] \<and> hd (CHR ''-'' # showNat n) = CHR ''-''
                then - 1 else 1) * int (digitsValue 10 (showNat n)))"
    using ws _ showNat_no_hex_prefix takeWhile_showNat showNat_nonempty
    by (rule parseInt_unfold) simp
  then show ?thesis by (simp add: digitsValue_showNat)
qed

lemma parseInt_showInt: "parseInt (showInt i) = Num i"
  by (simp add: showInt_def parseInt_showNat parseInt_minus_showNat)

lemma showInt_inject:
  assumes "showInt i = showInt j"
  shows "i = j"
proof -
  have "Num i = parseInt (showInt i)" by (simp only: parseInt_showInt)
  also have "\<dots> = parseInt (showInt j)" by (simp only: assms)
  also have "\<dots> = Num j" by (simp only: parseInt_showInt)
  finally show ?thesis by simp
qed



lemma fourMovies_tags:
  "map Tag_id (extractTagsFromMovies popularCatalog fourMovies) = [''genre-18'', ''genre-35'']"
  by code_simp

lemma fourMovies_tag_names:
  "map Tag_name (extractTagsFromMovies popularCatalog fourMovies) = [''Drama'', ''Unknown Genre'']"
  by code_simp

text \<open>
  Two genres that both occur twice keep the order in which they were first met, here and
  in the reversed input.
\<close>

lemma tie_keeps_first_met:
  "map Tag_id (extractTagsFromMovies popularCatalog
     [\<lparr>Movie_id = 1, title = ''A'', poster_path = None, genre_ids = Some [35, 18], genres = None\<rparr>,
      \<lparr>Movie_id = 2, title = ''B'', poster_path = None, genre_ids = Some [18, 35], genres = None\<rparr>])
   = [''genre-35'', ''genre-18'']"
  "map Tag_id (extractTagsFromMovies popularCatalog
     [\<lparr>Movie_id = 2, title = ''B'', poster_path = None, genre_ids = Some [18, 35], genres = None\<rparr>,
      \<lparr>Movie_id = 1, title = ''A'', poster_path = None, genre_ids = Some [35, 18], genres = None\<rparr>])
   = [''genre-18'', ''genre-35'']"
  by code_simp+



section \<open>Properties of the tag-based recommendations\<close>






text \<open>
  When there is a genre id or a liked movie, the result is filtered: it holds no
  disliked and no avoided movie.
\<close>

lemma discover_path_excludes:
  assumes "tagGenreIds ts \<noteq> [] \<or> likedMovieIds \<noteq> []"
  shows "idsOf (getTagBasedRecommendations api ts likedMovieIds dislikedMovieIds avoidedMovieIds pg)
           \<inter> (set dislikedMovieIds \<union> set avoidedMovieIds) = {}"
  using assms
  by (auto simp: getTagBasedRecommendations_def Let_def idsOf_def split: option.splits)

text \<open>
  Claim C1 fails on the cold-start path. With no tags and no liked movie the function
  returns the popular movies as they come: with the disliked ids \<open>[5]\<close> and movie 5 among
  the popular movies, movie 5 is in the result.
\<close>

theorem C1_cold_start_unfiltered:
  "getTagBasedRecommendations popularCatalog [] [] [5] [] 1 = [movie5, movie42] \<and>
   5 \<in> idsOf (getTagBasedRecommendations popularCatalog [] [] [5] [] 1)"
  by (simp add: getTagBasedRecommendations_def tagGenreIds_def getPopularMovies_def
      popularCatalog_def idsOf_def movie5_def)

section \<open>Properties of the persistence\<close>

subsection \<open>Strings\<close>

lemma chars_distinct:
  "dquote \<noteq> backslash" "backslash \<noteq> dquote"
  "(of_char dquote :: nat) = 34" "(of_char backslash :: nat) = 92"
  by (simp_all add: dquote_def backslash_def)

lemma digitValue_hexChar: "d < 16 \<Longrightarrow> digitValue (hexChar d) = Some d"
  by (auto simp: digitValue_def hexChar_def Let_def)

lemma hex4_escape:
  assumes "n < 32"
  shows "hex4 [CHR ''0'', CHR ''0'', hexChar (n div 16), hexChar (n mod 16)] = Some n"
proof -
  have hi: "n div 16 < 16" using assms by simp
  have lo: "n mod 16 < 16" by simp
  have z: "digitValue CHR ''0'' = Some 0" by (simp add: digitValue_def)
  have d: "isRadixDigit 16 CHR ''0''" "isRadixDigit 16 (hexChar (n div 16))"
    "isRadixDigit 16 (hexChar (n mod 16))"
    using hi lo by (simp_all add: isRadixDigit_def digitValue_hexChar z)
  have v: "digitsValue 16 [CHR ''0'', CHR ''0'', hexChar (n div 16), hexChar (n mod 16)] = n"
    using hi lo by (simp add: digitsValue_def digitValue_hexChar z)
  show ?thesis
    by (simp add: hex4_def d v)
qed

lemma parseChars_backslash:
  "parseChars (backslash # e # r) =
     (if e = CHR ''u'' then
        (case hex4 (take 4 r) of
           None \<Rightarrow> None
         | Some n \<Rightarrow>
             if n < 256 then
               (case parseChars (drop 4 r) of
                  None \<Rightarrow> None
                | Some (str, rest) \<Rightarrow> Some (char_of n # str, rest))
             else None)
      else
        (case (if e = dquote then Some dquote
               else if e = backslash then Some backslash
               else if e = CHR ''/'' then Some (CHR ''/'')
               else if e = CHR ''b'' then Some (CHR 0x08)
               else if e = CHR ''f'' then Some (CHR 0x0C)
               else if e = CHR ''n'' then Some (CHR 0x0A)
               else if e = CHR ''r'' then Some (CHR 0x0D)
               else if e = CHR ''t'' then Some (CHR 0x09)
               else None) of
           None \<Rightarrow> None
         | Some d \<Rightarrow>
             (case parseChars r of
                None \<Rightarrow> None
              | Some (str, rest) \<Rightarrow> Some (d # str, rest))))"
  by (simp add: chars_distinct)

lemma letters_plain:
  "CHR ''b'' \<noteq> dquote" "CHR ''b'' \<noteq> backslash"
  "CHR ''f'' \<noteq> dquote" "CHR ''f'' \<noteq> backslash"
  "CHR ''n'' \<noteq> dquote" "CHR ''n'' \<noteq> backslash"
  "CHR ''r'' \<noteq> dquote" "CHR ''r'' \<noteq> backslash"
  "CHR ''t'' \<noteq> dquote" "CHR ''t'' \<noteq> backslash"
  by (simp_all add: dquote_def backslash_def)

lemma parseChars_named:
  assumes "parseChars tail = Some (str, rest)"
  shows "parseChars (backslash # CHR ''b'' # tail) = Some (CHR 0x08 # str, rest)"
    and "parseChars (backslash # CHR ''t'' # tail) = Some (CHR 0x09 # str, rest)"
    and "parseChars (backslash # CHR ''n'' # tail) = Some (CHR 0x0A # str, rest)"
    and "parseChars (backslash # CHR ''f'' # tail) = Some (CHR 0x0C # str, rest)"
    and "parseChars (backslash # CHR ''r'' # tail) = Some (CHR 0x0D # str, rest)"
    and "parseChars (backslash # dquote # tail) = Some (dquote # str, rest)"
    and "parseChars (backslash # backslash # tail) = Some (backslash # str, rest)"
  using assms by (simp_all only: parseChars_backslash) (simp_all add: letters_plain dquote_def backslash_def)

lemma parseChars_unicode:
  assumes "n < 32" "parseChars tail = Some (str, rest)"
  shows "parseChars (backslash # CHR ''u'' # CHR ''0'' # CHR ''0'' # hexChar (n div 16) #
           hexChar (n mod 16) # tail) = Some (char_of n # str, rest)"
  using assms by (simp only: parseChars_backslash) (simp add: hex4_escape)

lemma parseChars_literal:
  assumes "c \<noteq> dquote" "c \<noteq> backslash" "\<not> (of_char c :: nat) < 32"
    and "parseChars tail = Some (str, rest)"
  shows "parseChars (c # tail) = Some (c # str, rest)"
  using assms by simp

lemma of_char_code_iff:
  "(of_char c :: nat) = 8 \<longleftrightarrow> c = CHR 0x08"
  "(of_char c :: nat) = 9 \<longleftrightarrow> c = CHR 0x09"
  "(of_char c :: nat) = 10 \<longleftrightarrow> c = CHR 0x0A"
  "(of_char c :: nat) = 12 \<longleftrightarrow> c = CHR 0x0C"
  "(of_char c :: nat) = 13 \<longleftrightarrow> c = CHR 0x0D"
proof -
  have r: "(of_char c :: nat) = of_char d \<longleftrightarrow> c = d" for d by (simp only: of_char_eq_iff)
  show "(of_char c :: nat) = 8 \<longleftrightarrow> c = CHR 0x08" using r [of "CHR 0x08"] by simp
  show "(of_char c :: nat) = 9 \<longleftrightarrow> c = CHR 0x09" using r [of "CHR 0x09"] by simp
  show "(of_char c :: nat) = 10 \<longleftrightarrow> c = CHR 0x0A" using r [of "CHR 0x0A"] by simp
  show "(of_char c :: nat) = 12 \<longleftrightarrow> c = CHR 0x0C" using r [of "CHR 0x0C"] by simp
  show "(of_char c :: nat) = 13 \<longleftrightarrow> c = CHR 0x0D" using r [of "CHR 0x0D"] by simp
qed

lemma escapeChar_cases:
  "escapeChar c =
     (if c = CHR 0x08 then [backslash, CHR ''b'']
      else if c = CHR 0x09 then [backslash, CHR ''t'']
      else if c = CHR 0x0A then [backslash, CHR ''n'']
      else if c = CHR 0x0C then [backslash, CHR ''f'']
      else if c = CHR 0x0D then [backslash, CHR ''r'']
      else if c = dquote then [backslash, dquote]
      else if c = backslash then [backslash, backslash]
      else if (of_char c :: nat) < 32
        then [backslash, CHR ''u'', CHR ''0'', CHR ''0'', hexChar (of_char c div 16),
              hexChar (of_char c mod 16)]
      else [c])"
  unfolding escapeChar_def Let_def of_char_code_iff by (rule refl)

lemma parseChars_escapeChar:
  assumes "parseChars tail = Some (str, rest)"
  shows "parseChars (escapeChar c @ tail) = Some (c # str, rest)"
proof -
  note named = parseChars_named [OF assms]
  consider "c = CHR 0x08" | "c = CHR 0x09" | "c = CHR 0x0A" | "c = CHR 0x0C" | "c = CHR 0x0D"
    | "c = dquote" | "c = backslash"
    | "c \<notin> {CHR 0x08, CHR 0x09, CHR 0x0A, CHR 0x0C, CHR 0x0D, dquote, backslash}"
    by blast
  then show ?thesis
  proof cases
    case 1
    have "escapeChar c = [backslash, CHR ''b'']" unfolding escapeChar_cases 1 by simp
    then show ?thesis using named(1) 1 by (simp del: parseChars.simps)
  next
    case 2
    have "escapeChar c = [backslash, CHR ''t'']" unfolding escapeChar_cases 2 by simp
    then show ?thesis using named(2) 2 by (simp del: parseChars.simps)
  next
    case 3
    have "escapeChar c = [backslash, CHR ''n'']" unfolding escapeChar_cases 3 by simp
    then show ?thesis using named(3) 3 by (simp del: parseChars.simps)
  next
    case 4
    have "escapeChar c = [backslash, CHR ''f'']" unfolding escapeChar_cases 4 by simp
    then show ?thesis using named(4) 4 by (simp del: parseChars.simps)
  next
    case 5
    have "escapeChar c = [backslash, CHR ''r'']" unfolding escapeChar_cases 5 by simp
    then show ?thesis using named(5) 5 by (simp del: parseChars.simps)
  next
    case 6
    have "escapeChar c = [backslash, dquote]"
      unfolding escapeChar_cases 6 by (simp add: dquote_def)
    then show ?thesis using named(6) 6 by (simp del: parseChars.simps)
  next
    case 7
    have "escapeChar c = [backslash, backslash]"
      unfolding escapeChar_cases 7 by (simp add: dquote_def backslash_def)
    then show ?thesis using named(7) 7 by (simp del: parseChars.simps)
  next
    case 8
    then have plain: "c \<noteq> CHR 0x08" "c \<noteq> CHR 0x09" "c \<noteq> CHR 0x0A" "c \<noteq> CHR 0x0C"
      "c \<noteq> CHR 0x0D" "c \<noteq> dquote" "c \<noteq> backslash"
      by blast+
    show ?thesis
    proof (cases "(of_char c :: nat) < 32")
      case True
      have "escapeChar c = [backslash, CHR ''u'', CHR ''0'', CHR ''0'',
              hexChar (of_char c div 16), hexChar (of_char c mod 16)]"
        unfolding escapeChar_cases using plain True by simp
      moreover have "parseChars (backslash # CHR ''u'' # CHR ''0'' # CHR ''0'' #
           hexChar (of_char c div 16) # hexChar (of_char c mod 16) # tail) =
           Some (char_of (of_char c :: nat) # str, rest)"
        using True assms by (rule parseChars_unicode)
      ultimately show ?thesis by (simp del: parseChars.simps)
    next
      case False
      have "escapeChar c = [c]"
        unfolding escapeChar_cases using plain False by simp
      moreover have "parseChars (c # tail) = Some (c # str, rest)"
        using plain(6,7) False assms by (rule parseChars_literal)
      ultimately show ?thesis by (simp del: parseChars.simps)
    qed
  qed
qed

lemma parseChars_quoted:
  "parseChars (concat (map escapeChar s) @ dquote # rest) = Some (s, rest)"
proof (induction s)
  case Nil
  show ?case by simp
next
  case (Cons c s)
  have "parseChars (escapeChar c @ (concat (map escapeChar s) @ dquote # rest)) =
          Some (c # s, rest)"
    using Cons.IH by (rule parseChars_escapeChar)
  then show ?case by (simp del: parseChars.simps)
qed

subsection \<open>Numbers\<close>

lemma takeWhile_dropWhile_run:
  assumes "\<forall>x \<in> set xs. P x" "rest = [] \<or> \<not> P (hd rest)"
  shows "takeWhile P (xs @ rest) = xs" "dropWhile P (xs @ rest) = rest"
  using assms by (induction xs) (auto simp: takeWhile_eq_Nil_iff dropWhile_eq_self_iff)

lemma delimited_not_digit: "delimited rest \<Longrightarrow> rest = [] \<or> \<not> isDecimalDigit (hd rest)"
  by (auto simp: delimited_def isDecimalDigit_def isRadixDigit_def digitValue_def)

lemma delimited_not_fraction:
  "delimited rest \<Longrightarrow>
   \<not> (rest \<noteq> [] \<and> (hd rest = CHR ''.'' \<or> hd rest = CHR ''e'' \<or> hd rest = CHR ''E''))"
  by (auto simp: delimited_def)

lemma showNat_decimal: "\<forall>c \<in> set (showNat n). isDecimalDigit c"
  using showNat_digits isRadixDigit_digitChar unfolding isDecimalDigit_def by blast

lemma digitChar_zero: "d < 10 \<Longrightarrow> digitChar d = CHR ''0'' \<longleftrightarrow> d = 0"
proof -
  assume "d < 10"
  then have "(of_char (digitChar d) :: nat) = 48 + d" by (rule of_char_digitChar)
  moreover have "(of_char CHR ''0'' :: nat) = 48" by simp
  ultimately show ?thesis by (metis add_cancel_right_right of_char_eq_iff)
qed

lemma hd_showNat_zero: "hd (showNat n) = CHR ''0'' \<Longrightarrow> n = 0"
proof (induction n rule: showNat.induct)
  case (1 n)
  show ?case
  proof (cases "n < 10")
    case True
    with "1.prems" show ?thesis by (simp add: showNat.simps [of n] digitChar_zero)
  next
    case False
    then have "hd (showNat n) = hd (showNat (n div 10))"
      by (simp add: showNat.simps [of n] showNat_nonempty)
    with "1.prems" "1.IH" False have "n div 10 = 0" by simp
    with False show ?thesis by simp
  qed
qed

lemma showNat_no_leading_zero: "\<not> (1 < length (showNat n) \<and> hd (showNat n) = CHR ''0'')"
proof
  assume a: "1 < length (showNat n) \<and> hd (showNat n) = CHR ''0''"
  then have "n = 0" using hd_showNat_zero by blast
  then have "length (showNat n) = 1" by (simp add: showNat.simps [of 0])
  with a show False by simp
qed

lemma hd_showNat_not_minus: "hd (showNat n) \<noteq> CHR ''-''"
  using hd_showNat [of n] digitChar_plain(2) by metis

lemma parseNumber_showNat:
  assumes "delimited rest"
  shows "parseNumber (showNat n @ rest) = Some (int n, rest)"
proof -
  have ne: "showNat n \<noteq> []" by (rule showNat_nonempty)
  then have h: "hd (showNat n @ rest) = hd (showNat n)" by simp
  have tw: "takeWhile isDecimalDigit (showNat n @ rest) = showNat n"
    and dw: "dropWhile isDecimalDigit (showNat n @ rest) = rest"
    using showNat_decimal delimited_not_digit [OF assms] by (rule takeWhile_dropWhile_run)+
  show ?thesis
    unfolding parseNumber_def Let_def h
    using ne hd_showNat_not_minus [of n] showNat_no_leading_zero [of n]
      delimited_not_fraction [OF assms]
    by (simp add: tw dw digitsValue_showNat)
qed

lemma parseNumber_minus_showNat:
  assumes "delimited rest"
  shows "parseNumber (CHR ''-'' # showNat n @ rest) = Some (- int n, rest)"
proof -
  have ne: "showNat n \<noteq> []" by (rule showNat_nonempty)
  have tw: "takeWhile isDecimalDigit (showNat n @ rest) = showNat n"
    and dw: "dropWhile isDecimalDigit (showNat n @ rest) = rest"
    using showNat_decimal delimited_not_digit [OF assms] by (rule takeWhile_dropWhile_run)+
  show ?thesis
    unfolding parseNumber_def Let_def
    using ne showNat_no_leading_zero [of n] delimited_not_fraction [OF assms]
    by (simp add: tw dw digitsValue_showNat)
qed

lemma parseNumber_showInt:
  assumes "delimited rest"
  shows "parseNumber (showInt i @ rest) = Some (i, rest)"
  using parseNumber_showNat [OF assms, of "nat i"] parseNumber_minus_showNat [OF assms, of "nat (- i)"]
  by (simp add: showInt_def)

subsection \<open>Values\<close>

lemma skipWs_plain: "\<not> isJsonWhiteSpace c \<Longrightarrow> skipWs (c # r) = c # r"
  by (simp add: skipWs_def)

lemma punctuation_plain:
  "\<not> isJsonWhiteSpace dquote" "\<not> isJsonWhiteSpace CHR ''[''" "\<not> isJsonWhiteSpace CHR ''{''"
  "\<not> isJsonWhiteSpace CHR '',''" "\<not> isJsonWhiteSpace CHR '']''" "\<not> isJsonWhiteSpace CHR ''}''"
  "\<not> isJsonWhiteSpace CHR '':''" "\<not> isJsonWhiteSpace CHR ''n''" "\<not> isJsonWhiteSpace CHR ''t''"
  "\<not> isJsonWhiteSpace CHR ''f''" "\<not> isJsonWhiteSpace CHR ''-''"
  by (simp_all add: isJsonWhiteSpace_def dquote_def)

lemma dquote_plain:
  "dquote \<noteq> CHR ''n''" "dquote \<noteq> CHR ''t''" "dquote \<noteq> CHR ''f''"
  "dquote \<noteq> CHR ''[''" "dquote \<noteq> CHR ''{''" "dquote \<noteq> CHR '']''" "dquote \<noteq> CHR ''}''"
  "CHR ''n'' \<noteq> dquote" "CHR ''t'' \<noteq> dquote" "CHR ''f'' \<noteq> dquote"
  "CHR ''['' \<noteq> dquote" "CHR ''{'' \<noteq> dquote" "CHR '']'' \<noteq> dquote" "CHR ''}'' \<noteq> dquote"
  by (simp_all add: dquote_def)

lemma parseValue_null: "parseValue (Suc n) (''null'' @ rest) = Some (JNull, rest)"
  by (simp add: skipWs_plain punctuation_plain dquote_plain del: parseChars.simps)

lemma parseValue_true: "parseValue (Suc n) (''true'' @ rest) = Some (JBool True, rest)"
  by (simp add: skipWs_plain punctuation_plain dquote_plain del: parseChars.simps)

lemma parseValue_false: "parseValue (Suc n) (''false'' @ rest) = Some (JBool False, rest)"
  by (simp add: skipWs_plain punctuation_plain dquote_plain del: parseChars.simps)

lemma parseValue_string:
  "parseValue (Suc n) (quoteJSONString s @ rest) = Some (JStr s, rest)"
proof -
  have "parseValue (Suc n) (dquote # concat (map escapeChar s) @ dquote # rest) =
          (case parseChars (concat (map escapeChar s) @ dquote # rest) of
             None \<Rightarrow> None
           | Some (str, r1) \<Rightarrow> Some (JStr str, r1))"
    by (simp add: skipWs_plain punctuation_plain dquote_plain del: parseChars.simps)
  then show ?thesis
    by (simp add: quoteJSONString_def parseChars_quoted del: parseValue.simps)
qed

lemma parseValue_number_start:
  assumes "c = CHR ''-'' \<or> (\<exists>d<10. c = digitChar d)"
  shows "parseValue (Suc n) (c # r) =
           (case parseNumber (c # r) of None \<Rightarrow> None | Some (i, r1) \<Rightarrow> Some (JNum i, r1))"
proof -
  have plain: "\<not> isJsonWhiteSpace c" "c \<noteq> CHR ''n''" "c \<noteq> CHR ''t''" "c \<noteq> CHR ''f''"
    "c \<noteq> dquote" "c \<noteq> CHR ''[''" "c \<noteq> CHR ''{''"
    using assms
    by (auto simp: isJsonWhiteSpace_def dquote_def of_char_digitChar
        dest!: arg_cong [where f = "of_char :: char \<Rightarrow> nat"])
  then show ?thesis by (simp add: skipWs_plain del: parseChars.simps)
qed

lemma showInt_start: "\<exists>c r. showInt i = c # r \<and> (c = CHR ''-'' \<or> (\<exists>d<10. c = digitChar d))"
proof (cases "i < 0")
  case True
  then show ?thesis by (simp add: showInt_def)
next
  case False
  obtain c r where cr: "showNat (nat i) = c # r"
    using showNat_nonempty [of "nat i"] by (cases "showNat (nat i)") auto
  then have "c \<in> set (showNat (nat i))" by simp
  then have "\<exists>d<10. c = digitChar d" by (rule showNat_digits)
  with cr False show ?thesis by (simp add: showInt_def)
qed

lemma parseValue_number:
  assumes "delimited rest"
  shows "parseValue (Suc n) (showInt i @ rest) = Some (JNum i, rest)"
proof -
  obtain c r where cr: "showInt i = c # r" "c = CHR ''-'' \<or> (\<exists>d<10. c = digitChar d)"
    using showInt_start by blast
  have "parseValue (Suc n) (c # (r @ rest)) =
          (case parseNumber (c # (r @ rest)) of
             None \<Rightarrow> None
           | Some (i, r1) \<Rightarrow> Some (JNum i, r1))"
    using cr(2) by (rule parseValue_number_start)
  moreover have "parseNumber (c # (r @ rest)) = Some (i, rest)"
    using parseNumber_showInt [OF assms, of i] cr(1) by simp
  ultimately show ?thesis using cr(1) by (simp del: parseValue.simps)
qed

lemma parseValue_array_empty: "parseValue (Suc n) (''[]'' @ rest) = Some (JArr [], rest)"
  by (simp add: skipWs_plain punctuation_plain dquote_plain del: parseChars.simps)

lemma parseValue_object_empty: "parseValue (Suc n) (''{}'' @ rest) = Some (JObj [], rest)"
  by (simp add: skipWs_plain punctuation_plain dquote_plain del: parseChars.simps)

lemma parseValue_array:
  assumes "\<not> isJsonWhiteSpace c" "c \<noteq> CHR '']''"
  shows "parseValue (Suc n) (CHR ''['' # c # r) =
           (case parseElements n (c # r) of
              None \<Rightarrow> None
            | Some (vs, r2) \<Rightarrow> Some (JArr vs, r2))"
  using assms by (simp add: skipWs_plain punctuation_plain dquote_plain del: parseChars.simps)

lemma parseValue_object:
  assumes "\<not> isJsonWhiteSpace c" "c \<noteq> CHR ''}''"
  shows "parseValue (Suc n) (CHR ''{'' # c # r) =
           (case parseMembers n (c # r) of
              None \<Rightarrow> None
            | Some (ms, r2) \<Rightarrow> Some (JObj ms, r2))"
  using assms by (simp add: skipWs_plain punctuation_plain dquote_plain del: parseChars.simps)

lemma parseElements_last:
  assumes "parseValue n s = Some (v, CHR '']'' # rest)"
  shows "parseElements (Suc n) s = Some ([v], rest)"
  using assms by (simp add: skipWs_plain punctuation_plain)

lemma parseElements_more:
  assumes "parseValue n s = Some (v, CHR '','' # r)" "parseElements n r = Some (vs, rest)"
  shows "parseElements (Suc n) s = Some (v # vs, rest)"
  using assms by (simp add: skipWs_plain punctuation_plain)

lemma parseMembers_last:
  assumes "parseValue n s = Some (v, CHR ''}'' # rest)"
  shows "parseMembers (Suc n) (quoteJSONString k @ CHR '':'' # s) = Some ([(k, v)], rest)"
  using assms
  by (simp add: quoteJSONString_def skipWs_plain punctuation_plain dquote_plain
      parseChars_quoted del: parseChars.simps)

lemma parseMembers_more:
  assumes "parseValue n s = Some (v, CHR '','' # r)" "parseMembers n r = Some (ms, rest)"
  shows "parseMembers (Suc n) (quoteJSONString k @ CHR '':'' # s) = Some ((k, v) # ms, rest)"
  using assms
  by (simp add: quoteJSONString_def skipWs_plain punctuation_plain dquote_plain
      parseChars_quoted del: parseChars.simps)

lemma digitChar_not_json_ws:
  assumes "d < 10"
  shows "\<not> isJsonWhiteSpace (digitChar d)" "digitChar d \<noteq> CHR '']''" "digitChar d \<noteq> CHR ''}''"
proof -
  have v: "(of_char (digitChar d) :: nat) = 48 + d" using assms by (rule of_char_digitChar)
  show "\<not> isJsonWhiteSpace (digitChar d)" by (simp add: isJsonWhiteSpace_def v)
  show "digitChar d \<noteq> CHR '']''" using v assms by auto
  show "digitChar d \<noteq> CHR ''}''" using v assms by auto
qed

lemma serialize_start:
  "\<exists>c r. serialize j = c # r \<and> \<not> isJsonWhiteSpace c \<and> c \<noteq> CHR '']'' \<and> c \<noteq> CHR ''}''"
proof (cases j)
  case JNull
  then show ?thesis by (simp add: punctuation_plain)
next
  case (JBool b)
  then show ?thesis by (simp add: punctuation_plain)
next
  case (JNum i)
  obtain c r where cr: "showInt i = c # r" "c = CHR ''-'' \<or> (\<exists>d<10. c = digitChar d)"
    using showInt_start by blast
  from cr(2) have "\<not> isJsonWhiteSpace c \<and> c \<noteq> CHR '']'' \<and> c \<noteq> CHR ''}''"
    using digitChar_not_json_ws punctuation_plain(11) by auto
  with cr(1) JNum show ?thesis by simp
next
  case (JStr s)
  then show ?thesis by (simp add: quoteJSONString_def punctuation_plain dquote_plain)
next
  case (JArr xs)
  then show ?thesis by (simp add: punctuation_plain)
next
  case (JObj ms)
  then show ?thesis by (simp add: punctuation_plain)
qed

lemma serializeElements_start:
  assumes "xs \<noteq> []"
  shows "\<exists>c r. serializeElements xs = c # r \<and> \<not> isJsonWhiteSpace c \<and> c \<noteq> CHR '']''"
proof -
  obtain x ys where xs: "xs = x # ys" using assms by (cases xs) auto
  obtain c r where cr: "serialize x = c # r" "\<not> isJsonWhiteSpace c" "c \<noteq> CHR '']''"
    using serialize_start by blast
  show ?thesis
    using cr unfolding xs by (cases ys) simp_all
qed

lemma serializeMembers_start:
  assumes "ms \<noteq> []"
  shows "\<exists>r. serializeMembers ms = dquote # r"
proof -
  obtain k v ns where ms: "ms = (k, v) # ns" using assms by (cases ms) auto
  show ?thesis
    unfolding ms by (cases ns) (simp_all add: quoteJSONString_def)
qed

lemma delimited_punctuation:
  "delimited []" "delimited (CHR '','' # r)" "delimited (CHR '']'' # r)" "delimited (CHR ''}'' # r)"
  by (simp_all add: delimited_def)

lemma parse_serialize:
  shows "fuelFor j \<le> n \<Longrightarrow> delimited rest \<Longrightarrow>
           parseValue n (serialize j @ rest) = Some (j, rest)"
    and "xs \<noteq> [] \<Longrightarrow> fuelForElements xs \<le> n \<Longrightarrow>
           parseElements n (serializeElements xs @ CHR '']'' # rest) = Some (xs, rest)"
    and "ms \<noteq> [] \<Longrightarrow> fuelForMembers ms \<le> n \<Longrightarrow>
           parseMembers n (serializeMembers ms @ CHR ''}'' # rest) = Some (ms, rest)"
proof (induction j and xs and ms arbitrary: n rest and n rest and n rest
    rule: serialize_serializeElements_serializeMembers.induct)
  case 1
  then obtain m where "n = Suc m" by (cases n) auto
  then show ?case using parseValue_null by (simp del: parseValue.simps)
next
  case (2 b)
  then obtain m where "n = Suc m" by (cases n) auto
  then show ?case using parseValue_true parseValue_false by (simp del: parseValue.simps)
next
  case (3 i)
  then obtain m where "n = Suc m" by (cases n) auto
  then show ?case using parseValue_number [OF "3.prems"(2)] by (simp del: parseValue.simps)
next
  case (4 s)
  then obtain m where "n = Suc m" by (cases n) auto
  then show ?case using parseValue_string by (simp del: parseValue.simps)
next
  case (5 xs)
  then obtain m where n: "n = Suc m" and m: "fuelForElements xs \<le> m" by (cases n) auto
  show ?case
  proof (cases "xs = []")
    case True
    then show ?thesis using parseValue_array_empty [of m rest] n by (simp del: parseValue.simps)
  next
    case False
    obtain c r where cr: "serializeElements xs = c # r" "\<not> isJsonWhiteSpace c" "c \<noteq> CHR '']''"
      using serializeElements_start [OF False] by blast
    have "parseElements m (c # (r @ CHR '']'' # rest)) = Some (xs, rest)"
      using "5.IH" [OF False m, of rest] cr(1) by simp
    moreover have "parseValue (Suc m) (CHR ''['' # c # (r @ CHR '']'' # rest)) =
          (case parseElements m (c # (r @ CHR '']'' # rest)) of
             None \<Rightarrow> None
           | Some (vs, r2) \<Rightarrow> Some (JArr vs, r2))"
      using cr(2,3) by (rule parseValue_array)
    ultimately show ?thesis using n cr(1) by (simp del: parseValue.simps)
  qed
next
  case (6 ms)
  then obtain m where n: "n = Suc m" and m: "fuelForMembers ms \<le> m" by (cases n) auto
  show ?case
  proof (cases "ms = []")
    case True
    then show ?thesis using parseValue_object_empty [of m rest] n by (simp del: parseValue.simps)
  next
    case False
    obtain r where r: "serializeMembers ms = dquote # r"
      using serializeMembers_start [OF False] by blast
    have "parseMembers m (dquote # (r @ CHR ''}'' # rest)) = Some (ms, rest)"
      using "6.IH" [OF False m, of rest] r by simp
    moreover have "parseValue (Suc m) (CHR ''{'' # dquote # (r @ CHR ''}'' # rest)) =
          (case parseMembers m (dquote # (r @ CHR ''}'' # rest)) of
             None \<Rightarrow> None
           | Some (ms, r2) \<Rightarrow> Some (JObj ms, r2))"
      using punctuation_plain(1) dquote_plain(7) by (rule parseValue_object)
    ultimately show ?thesis using n r by (simp del: parseValue.simps)
  qed
next
  case 7
  then show ?case by simp
next
  case (8 x)
  then obtain m where n: "n = Suc m" and m: "fuelFor x \<le> m" by (cases n) auto
  have "parseValue m (serialize x @ CHR '']'' # rest) = Some (x, CHR '']'' # rest)"
    using m delimited_punctuation(3) by (rule "8.IH")
  then have "parseElements (Suc m) (serialize x @ CHR '']'' # rest) = Some ([x], rest)"
    by (rule parseElements_last)
  then show ?case using n by (simp del: parseValue.simps)
next
  case (9 x y ys)
  then obtain m where n: "n = Suc m" and m: "fuelFor x \<le> m" "fuelForElements (y # ys) \<le> m"
    by (cases n) auto
  let ?tail = "serializeElements (y # ys) @ CHR '']'' # rest"
  have "parseValue m (serialize x @ CHR '','' # ?tail) = Some (x, CHR '','' # ?tail)"
    using m(1) delimited_punctuation(2) by (rule "9.IH"(1))
  moreover have "parseElements m ?tail = Some (y # ys, rest)"
    using m(2) by (intro "9.IH"(2)) simp
  ultimately have "parseElements (Suc m) (serialize x @ CHR '','' # ?tail) = Some (x # y # ys, rest)"
    by (rule parseElements_more)
  then show ?case using n by (simp del: parseValue.simps)
next
  case 10
  then show ?case by simp
next
  case (11 k v)
  then obtain m where n: "n = Suc m" and m: "fuelFor v \<le> m" by (cases n) auto
  have "parseValue m (serialize v @ CHR ''}'' # rest) = Some (v, CHR ''}'' # rest)"
    using m delimited_punctuation(4) by (rule "11.IH")
  then have "parseMembers (Suc m) (quoteJSONString k @ CHR '':'' # serialize v @ CHR ''}'' # rest) =
      Some ([(k, v)], rest)"
    by (rule parseMembers_last)
  then show ?case using n by (simp del: parseValue.simps)
next
  case (12 k v p ps)
  then obtain m where n: "n = Suc m" and m: "fuelFor v \<le> m" "fuelForMembers (p # ps) \<le> m"
    by (cases n) auto
  let ?tail = "serializeMembers (p # ps) @ CHR ''}'' # rest"
  have "parseValue m (serialize v @ CHR '','' # ?tail) = Some (v, CHR '','' # ?tail)"
    using m(1) delimited_punctuation(2) by (rule "12.IH"(1))
  moreover have "parseMembers m ?tail = Some (p # ps, rest)"
    using m(2) by (intro "12.IH"(2)) simp
  ultimately have "parseMembers (Suc m) (quoteJSONString k @ CHR '':'' # serialize v @ CHR '','' # ?tail) =
      Some ((k, v) # p # ps, rest)"
    by (rule parseMembers_more)
  then show ?case using n by (simp del: parseValue.simps)
qed

subsection \<open>Profiles\<close>

lemma showInt_nonempty: "showInt i \<noteq> []"
  by (simp add: showInt_def showNat_nonempty)

lemma fuel_le_length:
  shows "fuelFor j \<le> length (serialize j)"
    and "fuelForElements xs \<le> Suc (length (serializeElements xs))"
    and "fuelForMembers ms \<le> Suc (length (serializeMembers ms))"
proof (induction j and xs and ms rule: serialize_serializeElements_serializeMembers.induct)
  case (3 i)
  have "1 \<le> length (showInt i)" using showInt_nonempty [of i] by (cases "showInt i") auto
  then show ?case by simp
next
  case (4 s)
  show ?case by (simp add: quoteJSONString_def)
qed (simp_all add: quoteJSONString_def)

lemma JSON_parse_stringify: "JSON_parse (JSON_stringify v) = Some v"
proof -
  have "fuelFor v \<le> Suc (length (serialize v))"
    using fuel_le_length(1) [of v] by simp
  then have "parseValue (Suc (length (serialize v))) (serialize v @ []) = Some (v, [])"
    using delimited_punctuation(1) by (rule parse_serialize(1))
  then show ?thesis
    by (simp add: JSON_parse_def JSON_stringify_def skipWs_def del: parseValue.simps)
qed

lemma those_map_inverse:
  assumes "\<And>x. dec (enc x) = Some x"
  shows "those (map (dec \<circ> enc) xs) = Some xs"
  by (induction xs) (simp_all add: assms)

lemma asGenre_genreJSON: "asGenre (genreJSON g) = Some g"
  by (simp add: genreJSON_def getProperty_def)

lemma asMovie_movieJSON: "asMovie (movieJSON m) = Some m"
proof -
  have gi: "those (map (asInt \<circ> JNum) ids) = Some ids" for ids
    by (rule those_map_inverse) simp
  have gs: "those (map (asGenre \<circ> genreJSON) gs) = Some gs" for gs
    by (rule those_map_inverse) (rule asGenre_genreJSON)
  show ?thesis
    by (cases "poster_path m"; cases "genre_ids m"; cases "genres m")
      (simp_all add: movieJSON_def getProperty_def gi gs)
qed

lemma asTag_tagJSON: "asTag (tagJSON t) = Some t"
  by (simp add: tagJSON_def getProperty_def)

lemma asUserProfile_profileJSON: "asUserProfile (profileJSON p) = Some p"
proof -
  have ms: "those (map (asMovie \<circ> movieJSON) xs) = Some xs" for xs
    by (rule those_map_inverse) (rule asMovie_movieJSON)
  have ts: "those (map (asTag \<circ> tagJSON) xs) = Some xs" for xs
    by (rule those_map_inverse) (rule asTag_tagJSON)
  show ?thesis
    by (cases "currentMood p") (simp_all add: profileJSON_def getProperty_def ms ts)
qed

lemma saveProfile_nonempty: "saveProfile p \<noteq> []"
  by (simp add: saveProfile_def JSON_stringify_def profileJSON_def)

text \<open>
  Claim C7. For every profile \<open>p\<close>, the text that the provider stores for \<open>p\<close> is read
  back by the state initialiser as a profile equal to \<open>p\<close>; this covers a populated
  profile and a profile with no mood set.
\<close>

theorem C7_round_trip: "loadProfile (Some (saveProfile p)) = Some p"
  using saveProfile_nonempty [of p]
  by (simp add: loadProfile_def) (simp add: saveProfile_def JSON_parse_stringify asUserProfile_profileJSON)

theorem C7_round_trip_witness:
  "loadProfile (Some (saveProfile exampleProfile)) = Some exampleProfile \<and>
   currentMood exampleProfile = Some ''happy'' \<and>
   loadProfile (Some (saveProfile initialProfile)) = Some initialProfile \<and>
   currentMood initialProfile = None"
  using C7_round_trip [of exampleProfile] C7_round_trip [of initialProfile]
  by (simp add: exampleProfile_def initialProfile_def)

lemma saveProfile_initialProfile:
  \<open>saveProfile initialProfile =
     ''{"likedMovies":[],"dislikedMovies":[],"avoidedMovies":[],"tags":[]}''\<close>
  by code_simp

lemma saveProfile_one_liked:
  \<open>saveProfile (addLikedMovie movie42 initialProfile) =
     ''{"likedMovies":[{"id":42,"title":"Example","poster_path":null,"genre_ids":[18]}],"dislikedMovies":[],"avoidedMovies":[],"tags":[]}''\<close>
  by code_simp

lemma loadProfile_spaced:
  \<open>loadProfile (Some ''{ "likedMovies": [], "dislikedMovies": [], "avoidedMovies": [], "tags": [], "currentMood": "sad" }'') =
     Some (initialProfile\<lparr>currentMood := Some ''sad''\<rparr>)\<close>
  by code_simp

end
